theory Spec2Isabelle
  imports Main "HOL-Library.Word" "HOL-Library.Sublist"
begin

unbundle bit_operations_syntax

section \<open>Abort codes\<close>

text \<open>
  The table \<open>SdoCode\<close> of the SDO module: one constant per key, with the value the
  source assigns to it. The keys \<open>WRITE_ONLY\<close> and \<open>READ_ONLY\<close> carry the suffix
  \<open>_CODE\<close> here, apart from the access types of the same names.
\<close>

definition TOGGLE_BIT :: nat where "TOGGLE_BIT = 0x05030000"
definition TIMEOUT :: nat where "TIMEOUT = 0x05040000"
definition BAD_COMMAND :: nat where "BAD_COMMAND = 0x05040001"
definition BAD_BLOCK_SIZE :: nat where "BAD_BLOCK_SIZE = 0x05040002"
definition BAD_BLOCK_SEQUENCE :: nat where "BAD_BLOCK_SEQUENCE = 0x05040003"
definition BAD_BLOCK_CRC :: nat where "BAD_BLOCK_CRC = 0x05040004"
definition OUT_OF_MEMORY :: nat where "OUT_OF_MEMORY = 0x05040005"
definition UNSUPPORTED_ACCESS :: nat where "UNSUPPORTED_ACCESS = 0x06010000"
definition WRITE_ONLY_CODE :: nat where "WRITE_ONLY_CODE = 0x06010001"
definition READ_ONLY_CODE :: nat where "READ_ONLY_CODE = 0x06010002"
definition OBJECT_UNDEFINED :: nat where "OBJECT_UNDEFINED = 0x06020000"
definition OBJECT_NOT_MAPPABLE :: nat where "OBJECT_NOT_MAPPABLE = 0x06040041"
definition MAP_LENGTH :: nat where "MAP_LENGTH = 0x06040042"
definition PARAMETER_INCOMPATIBILITY :: nat where "PARAMETER_INCOMPATIBILITY = 0x06040043"
definition DEVICE_INCOMPATIBILITY :: nat where "DEVICE_INCOMPATIBILITY = 0x06040047"
definition HARDWARE_ERROR :: nat where "HARDWARE_ERROR = 0x06060000"
definition BAD_LENGTH :: nat where "BAD_LENGTH = 0x06070010"
definition DATA_LONG :: nat where "DATA_LONG = 0x06070012"
definition DATA_SHORT :: nat where "DATA_SHORT = 0x06070012"
definition BAD_SUB_INDEX :: nat where "BAD_SUB_INDEX = 0x06090011"
definition BAD_VALUE :: nat where "BAD_VALUE = 0x06090030"
definition VALUE_HIGH :: nat where "VALUE_HIGH = 0x06090031"
definition VALUE_LOW :: nat where "VALUE_LOW = 0x06090032"
definition RANGE_ERROR :: nat where "RANGE_ERROR = 0x06090036"
definition SDO_NOT_AVAILBLE :: nat where "SDO_NOT_AVAILBLE = 0x060A0023"
definition GENERAL_ERROR :: nat where "GENERAL_ERROR = 0x08000000"
definition DATA_TRANSFER :: nat where "DATA_TRANSFER = 0x08000020"
definition LOCAL_CONTROL :: nat where "LOCAL_CONTROL = 0x08000021"
definition DEVICE_STATE :: nat where "DEVICE_STATE = 0x08000022"
definition OD_ERROR :: nat where "OD_ERROR = 0x08000023"
definition NO_DATA :: nat where "NO_DATA = 0x08000024"

text \<open>
  \<open>codeToString\<close> is a \<open>switch\<close> over the code: the first \<open>case\<close> label equal to the
  code decides, in the order of the source.
\<close>

definition codeToString :: "nat \<Rightarrow> string" where
  "codeToString code =
     (if code = TOGGLE_BIT then ''Toggle bit not altered''
      else if code = TIMEOUT then ''SDO protocol timed out''
      else if code = BAD_COMMAND then ''Command specifier not valid or unknown''
      else if code = BAD_BLOCK_SIZE then ''Invalid block size in block mode''
      else if code = BAD_BLOCK_SEQUENCE then ''Invalid sequence number in block mode''
      else if code = BAD_BLOCK_CRC then ''CRC error in block mode''
      else if code = OUT_OF_MEMORY then ''Out of memory''
      else if code = UNSUPPORTED_ACCESS then ''Unsupported access to an object''
      else if code = WRITE_ONLY_CODE then ''Attempt to read a write only object''
      else if code = READ_ONLY_CODE then ''Attempt to write a read only object''
      else if code = OBJECT_UNDEFINED then ''Object does not exist''
      else if code = OBJECT_NOT_MAPPABLE then ''Object cannot be mapped to the PDO''
      else if code = MAP_LENGTH then ''Number and length of object to be mapped exceeds PDO length''
      else if code = PARAMETER_INCOMPATIBILITY then ''General parameter incompatibility reasons''
      else if code = DEVICE_INCOMPATIBILITY then ''General internal incompatibility in device''
      else if code = HARDWARE_ERROR then ''Access failed due to hardware error''
      else if code = BAD_LENGTH then ''Data type does not match: length of service parameter does not match''
      else if code = DATA_LONG then ''Data type does not match: length of service parameter too high''
      else if code = DATA_SHORT then ''Data type does not match: length of service parameter too short''
      else if code = BAD_SUB_INDEX then ''Sub index does not exist''
      else if code = BAD_VALUE then ''Invalid value for download parameter''
      else if code = VALUE_HIGH then ''Value range of parameter written too high''
      else if code = VALUE_LOW then ''Value range of parameter written too low''
      else if code = RANGE_ERROR then ''Maximum value is less than minimum value''
      else if code = SDO_NOT_AVAILBLE then ''Resource not available: SDO connection''
      else if code = GENERAL_ERROR then ''General error''
      else if code = DATA_TRANSFER then ''Data cannot be transferred or stored to application''
      else if code = LOCAL_CONTROL then ''Data cannot be transferred or stored to application because of local control''
      else if code = DEVICE_STATE then ''Data cannot be transferred or stored to application because of present device state''
      else if code = OD_ERROR then ''Object dictionary not present or dynamic generation failed''
      else if code = NO_DATA then ''No data available''
      else ''Unknown error'')"

section \<open>Buffers and frames\<close>

text \<open>
  A Node \<open>Buffer\<close> is a list of bytes. JavaScript numbers that the protocol code
  computes with (command bytes, counts, lengths) are natural numbers here: all of them
  are non-negative and far below \<open>2^31\<close>, where the 32-bit operators \<open>&\<close>, \<open>|\<close>,
  \<open><<\<close> and \<open>>>\<close> agree with \<open>AND\<close>, \<open>OR\<close>, \<open>push_bit\<close> and \<open>drop_bit\<close>.
\<close>

type_synonym byte = "8 word"

type_synonym frame = "int \<times> byte list"

definition alloc :: "nat \<Rightarrow> byte list" where
  "alloc n = replicate n 0"

text \<open>
  \<open>data[i]\<close> and \<open>data.readUInt8(i)\<close>. Past the end \<open>data[i]\<close> is \<open>undefined\<close>,
  which the bitwise operators read as 0. The \<open>read\<close> methods raise a RangeError
  there, which the model does not follow: the theorems about a handler that calls them
  take a frame of 8 data bytes, the length of every SDO frame.
\<close>

definition byteAt :: "byte list \<Rightarrow> nat \<Rightarrow> nat" where
  "byteAt d i = (if i < length d then unat (d ! i) else 0)"

definition readUInt16LE :: "byte list \<Rightarrow> nat \<Rightarrow> nat" where
  "readUInt16LE d off = byteAt d off + 256 * byteAt d (off + 1)"

definition readUInt32LE :: "byte list \<Rightarrow> nat \<Rightarrow> nat" where
  "readUInt32LE d off =
     byteAt d off + 256 * byteAt d (off + 1) + 65536 * byteAt d (off + 2)
     + 16777216 * byteAt d (off + 3)"

text \<open>
  The \<open>write\<close> methods, on a buffer long enough (every call below writes inside an
  8-byte buffer) and with a value in range (so the reduction to a byte loses nothing).
\<close>

definition writeUInt8 :: "nat \<Rightarrow> nat \<Rightarrow> byte list \<Rightarrow> byte list" where
  "writeUInt8 v off buf = buf[off := of_nat v]"

definition writeUInt16LE :: "nat \<Rightarrow> nat \<Rightarrow> byte list \<Rightarrow> byte list" where
  "writeUInt16LE v off buf = buf[off := of_nat v, off + 1 := of_nat (v div 256)]"

definition writeUInt32LE :: "nat \<Rightarrow> nat \<Rightarrow> byte list \<Rightarrow> byte list" where
  "writeUInt32LE v off buf =
     buf[off := of_nat v, off + 1 := of_nat (v div 256),
         off + 2 := of_nat (v div 65536), off + 3 := of_nat (v div 16777216)]"

text \<open>\<open>src.copy(target, targetStart, sourceStart, sourceEnd)\<close>: as much as fits.\<close>

definition copy :: "byte list \<Rightarrow> byte list \<Rightarrow> nat \<Rightarrow> nat \<Rightarrow> nat \<Rightarrow> byte list" where
  "copy src target targetStart sourceStart sourceEnd =
     (let chunk = take (length target - targetStart) (drop sourceStart (take sourceEnd src))
      in take targetStart target @ chunk @ drop (targetStart + length chunk) target)"

text \<open>\<open>buf.slice(start, end)\<close> and \<open>Buffer.concat(list, totalLength)\<close>.\<close>

definition slice :: "byte list \<Rightarrow> nat \<Rightarrow> nat \<Rightarrow> byte list" where
  "slice buf start end = drop start (take end buf)"

definition concat_total :: "byte list list \<Rightarrow> nat \<Rightarrow> byte list" where
  "concat_total bufs totalLength =
     take totalLength (concat bufs @ replicate totalLength 0)"

section \<open>Transfers\<close>

text \<open>
  The promise of a transfer is held through its \<open>_resolve\<close> and \<open>_reject\<close> callbacks:
  \<open>NoFuture\<close> when the transfer was built without them (the server's contexts),
  \<open>Pending\<close> until the first of them is called; a promise keeps its first settlement.
\<close>

datatype future =
  NoFuture | Pending | Fulfilled "byte list option" | Rejected nat | RejectedUndefined

text \<open>
  Class \<open>Transfer\<close>. \<open>index\<close> and \<open>subIndex\<close> are \<open>None\<close> where the source has
  \<open>undefined\<close> or \<open>null\<close>; \<open>timeout\<close> 0 is the falsy timeout; \<open>timer\<close> says
  whether a timeout is armed (deadlines are not modelled).
\<close>

record Transfer =
  index :: "16 word option"
  subIndex :: "byte option"
  timeout :: nat
  cobId :: int
  data :: "byte list"
  sizeT :: nat
  active :: bool
  toggle :: nat
  timer :: bool
  future :: future

text \<open>The constructor: \<open>size\<close> is the length of the data, nothing is armed yet.\<close>

definition new_Transfer ::
  "future \<Rightarrow> 16 word option \<Rightarrow> byte option \<Rightarrow> byte list \<Rightarrow> nat \<Rightarrow> int \<Rightarrow> Transfer" where
  "new_Transfer fut idx sub dat tmo cob =
     \<lparr> index = idx, subIndex = sub, timeout = tmo, cobId = cob, data = dat,
       sizeT = length dat, active = False, toggle = 0, timer = False, future = fut \<rparr>"

definition start :: "Transfer \<Rightarrow> Transfer" where
  "start t = t\<lparr> active := True, timer := (if timeout t \<noteq> 0 then True else timer t) \<rparr>"

definition refresh :: "Transfer \<Rightarrow> Transfer" where
  "refresh t = t"

definition resolve :: "byte list option \<Rightarrow> Transfer \<Rightarrow> Transfer" where
  "resolve v t =
     t\<lparr> active := False, timer := False,
        future := (if future t = Pending then Fulfilled v else future t) \<rparr>"

definition reject :: "nat \<Rightarrow> Transfer \<Rightarrow> Transfer" where
  "reject code t =
     t\<lparr> active := False, timer := False,
        future := (if future t = Pending then Rejected code else future t) \<rparr>"

text \<open>\<open>reject()\<close> with no code, as the server calls it on an abort from the client.\<close>

definition reject_undefined :: "Transfer \<Rightarrow> Transfer" where
  "reject_undefined t =
     t\<lparr> active := False, timer := False,
        future := (if future t = Pending then RejectedUndefined else future t) \<rparr>"

text \<open>
  The number a \<open>write\<close> method stores for the index or sub-index of a transfer:
  \<open>undefined\<close> and \<open>null\<close> are written as 0.
\<close>

definition indexNum :: "Transfer \<Rightarrow> nat" where
  "indexNum t = (case index t of None \<Rightarrow> 0 | Some i \<Rightarrow> unat i)"

definition subIndexNum :: "Transfer \<Rightarrow> nat" where
  "subIndexNum t = (case subIndex t of None \<Rightarrow> 0 | Some s \<Rightarrow> unat s)"

definition abortFrame :: "Transfer \<Rightarrow> nat \<Rightarrow> byte list" where
  "abortFrame t code =
     writeUInt32LE code 4
       (writeUInt8 (subIndexNum t) 3 (writeUInt16LE (indexNum t) 1 (writeUInt8 0x80 0 (alloc 8))))"

section \<open>The object dictionary, as the SDO server reads it\<close>

text \<open>
  The dictionary belongs to another module (\<open>eds\<close>); the SDO server reaches it
  through \<open>getEntry\<close>, the fields \<open>subNumber\<close>, \<open>accessType\<close>, \<open>dataType\<close>,
  \<open>highLimit\<close>, \<open>lowLimit\<close>, \<open>size\<close> and \<open>raw\<close> of an entry, and the sub-entries
  \<open>entry[subIndex]\<close>. These are the fields of the records below (\<open>size\<close> is a
  field of its own, whatever the length of \<open>raw\<close>). \<open>rawToType\<close>, of the same
  module, is a parameter \<open>rtt\<close> of the handlers that call it: the values it yields
  are of any ordered type, and \<open>None\<close> stands for a call that throws, as a read of
  more bytes than the buffer holds does.
\<close>

datatype AccessType = CONSTANT | READ_ONLY | READ_WRITE | WRITE_ONLY

record 'v Entry =
  accessType :: AccessType
  dataType :: nat
  highLimit :: "'v option"
  lowLimit :: "'v option"
  sizeE :: nat
  raw :: "byte list"

record 'v DataObject =
  top :: "'v Entry"
  subNumber :: nat
  subs :: "byte \<Rightarrow> 'v Entry option"

type_synonym 'v eds = "16 word \<Rightarrow> 'v DataObject option"

text \<open>
  The device: its object dictionary (\<open>device.eds\<close>), the frames handed to
  \<open>device.send\<close>, oldest first, and the exceptions that a handler of the server let
  escape, oldest first. No handler catches: the exception ends the handler where it is
  thrown, and what the handler had assigned before stays assigned.
\<close>

datatype fault = RawToTypeThrew

record 'v Device =
  eds :: "'v eds"
  sent :: "frame list"
  faults :: "fault list"

definition device_send :: "frame \<Rightarrow> 'v Device \<Rightarrow> 'v Device" where
  "device_send f dev = dev\<lparr> sent := sent dev @ [f] \<rparr>"

definition throw :: "fault \<Rightarrow> 'v Device \<Rightarrow> 'v Device" where
  "throw e dev = dev\<lparr> faults := faults dev @ [e] \<rparr>"

text \<open>\<open>Transfer.send\<close> and \<open>Transfer.abort\<close>: the abort frame goes out, then the reject.\<close>

definition send :: "byte list \<Rightarrow> Transfer \<Rightarrow> 'v Device \<Rightarrow> 'v Device" where
  "send d t dev = device_send (cobId t, d) dev"

definition abort :: "nat \<Rightarrow> Transfer \<Rightarrow> 'v Device \<Rightarrow> Transfer \<times> 'v Device" where
  "abort code t dev = (reject code t, send (abortFrame t code) t dev)"

definition getEntry :: "'v eds \<Rightarrow> 16 word option \<Rightarrow> 'v DataObject option" where
  "getEntry od idx = (case idx of None \<Rightarrow> None | Some i \<Rightarrow> od i)"

text \<open>
  The lookup that the three server handlers repeat word for word: the object by index,
  then, when it has sub-entries, the sub-entry. \<open>Inl\<close> is the abort code.
\<close>

definition findEntry :: "'v eds \<Rightarrow> 16 word option \<Rightarrow> byte option \<Rightarrow> nat + 'v Entry" where
  "findEntry od idx sub =
     (case getEntry od idx of
        None \<Rightarrow> Inl OBJECT_UNDEFINED
      | Some obj \<Rightarrow>
          if subNumber obj > 0 then
            (case sub of
               None \<Rightarrow> Inl BAD_SUB_INDEX
             | Some s \<Rightarrow>
                 (case subs obj s of None \<Rightarrow> Inl BAD_SUB_INDEX | Some e \<Rightarrow> Inr e))
          else Inr (top obj))"

text \<open>\<open>entry.raw = raw\<close>, on the entry that \<open>findEntry\<close> found.\<close>

definition setRaw :: "'v eds \<Rightarrow> 16 word option \<Rightarrow> byte option \<Rightarrow> byte list \<Rightarrow> 'v eds" where
  "setRaw od idx sub r =
     (case idx of
        None \<Rightarrow> od
      | Some i \<Rightarrow>
          (case od i of
             None \<Rightarrow> od
           | Some obj \<Rightarrow>
               if subNumber obj > 0 then
                 (case sub of
                    None \<Rightarrow> od
                  | Some s \<Rightarrow>
                      (case subs obj s of
                         None \<Rightarrow> od
                       | Some e \<Rightarrow> od(i \<mapsto> obj\<lparr> subs := (subs obj)(s \<mapsto> e\<lparr> raw := r \<rparr>) \<rparr>)))
               else od(i \<mapsto> obj\<lparr> top := (top obj)\<lparr> raw := r \<rparr> \<rparr>)))"

section \<open>The SDO server\<close>

text \<open>
  Each handler takes the context of the client (a \<open>Transfer\<close>), the device and the
  data of the frame, and returns the context and the device as the source leaves them.
\<close>

text \<open>The reply to a download initiate: \<open>ServerCommand.DOWNLOAD_INITIATE << 5\<close>.\<close>

definition downloadInitiateAck :: "Transfer \<Rightarrow> byte list" where
  "downloadInitiateAck client =
     writeUInt8 (subIndexNum client) 3
       (writeUInt16LE (indexNum client) 1 (writeUInt8 (push_bit 5 3) 0 (alloc 8)))"

definition server_downloadInitiate ::
  "(byte list \<Rightarrow> nat \<Rightarrow> 'v::ord option) \<Rightarrow> Transfer \<Rightarrow> 'v Device \<Rightarrow> byte list
     \<Rightarrow> Transfer \<times> 'v Device" where
  "server_downloadInitiate rtt client0 dev d =
     (let client = client0\<lparr> index := Some (of_nat (readUInt16LE d 1)),
                             subIndex := Some (of_nat (byteAt d 3)) \<rparr>
      in if byteAt d 0 AND 0x02 \<noteq> 0 then
           (case findEntry (eds dev) (index client) (subIndex client) of
              Inl code \<Rightarrow> abort code client dev
            | Inr entry \<Rightarrow>
                if accessType entry = CONSTANT \<or> accessType entry = READ_ONLY then
                  abort READ_ONLY_CODE client dev
                else
                  let count = (if byteAt d 0 AND 1 \<noteq> 0
                               then 4 - (drop_bit 2 (byteAt d 0) AND 3) else 4);
                      raw = copy d (alloc count) 0 4 (count + 4)
                  in case rtt raw (dataType entry) of
                       None \<Rightarrow> (client, throw RawToTypeThrew dev)
                     | Some v \<Rightarrow>
                         if (case highLimit entry of None \<Rightarrow> False | Some h \<Rightarrow> v > h) then
                           abort VALUE_HIGH client dev
                         else if (case lowLimit entry of None \<Rightarrow> False | Some l \<Rightarrow> v < l)
                         then abort VALUE_LOW client dev
                         else
                           (client,
                            device_send (cobId client, downloadInitiateAck client)
                              (dev\<lparr> eds := setRaw (eds dev) (index client) (subIndex client)
                                                raw \<rparr>)))
         else
           (start (client\<lparr> data := alloc 0, sizeT := 0, toggle := 0 \<rparr>),
            device_send (cobId client, downloadInitiateAck client) dev))"

definition server_uploadInitiate ::
  "Transfer \<Rightarrow> 'v Device \<Rightarrow> byte list \<Rightarrow> Transfer \<times> 'v Device" where
  "server_uploadInitiate client0 dev d =
     (let client = client0\<lparr> index := Some (of_nat (readUInt16LE d 1)),
                             subIndex := Some (of_nat (byteAt d 3)) \<rparr>
      in case findEntry (eds dev) (index client) (subIndex client) of
           Inl code \<Rightarrow> abort code client dev
         | Inr entry \<Rightarrow>
             if accessType entry = WRITE_ONLY then abort WRITE_ONLY_CODE client dev
             else if sizeE entry \<le> 4 then
               let header = push_bit 5 2 OR push_bit 2 (4 - sizeE entry) OR 0x2;
                   sb1 = writeUInt8 (subIndexNum client) 3
                           (writeUInt16LE (indexNum client) 1 (writeUInt8 header 0 (alloc 8)));
                   sb2 = copy (raw entry) sb1 4 0 (length (raw entry));
                   sb3 = (if sizeE entry < 4
                          then sb2[0 := (sb2 ! 0) OR of_nat (push_bit 2 (4 - sizeE entry) OR 0x1)]
                          else sb2)
               in (client, device_send (cobId client, sb3) dev)
             else
               let client1 = client\<lparr> data := raw entry, sizeT := 0, toggle := 0 \<rparr>;
                   header = push_bit 5 2 OR 0x1;
                   sb = writeUInt32LE (length (data client1)) 4
                          (writeUInt8 (subIndexNum client1) 3
                            (writeUInt16LE (indexNum client1) 1 (writeUInt8 header 0 (alloc 8))))
               in (start client1, device_send (cobId client1, sb) dev))"

text \<open>
  \<open>client.data.length - client.size\<close> is never negative: \<open>size\<close> starts at 0 and grows
  by a count that is at most what remains.
\<close>

definition server_uploadSegment ::
  "Transfer \<Rightarrow> 'v Device \<Rightarrow> byte list \<Rightarrow> Transfer \<times> 'v Device" where
  "server_uploadSegment client dev d =
     (if byteAt d 0 AND 0x10 \<noteq> push_bit 4 (toggle client) then abort TOGGLE_BIT client dev
      else
        let count = min 7 (length (data client) - sizeT client);
            sb = copy (data client) (alloc 8) 1 (sizeT client) (sizeT client + count);
            header0 = push_bit 4 (toggle client) OR push_bit 1 (7 - count);
            last = (sizeT client = length (data client));
            header = (if last then header0 OR 1 else header0);
            client1 = (if last then resolve None client else client);
            client2 = client1\<lparr> toggle := toggle client1 XOR 1, sizeT := sizeT client1 + count \<rparr>
        in (refresh client2, device_send (cobId client2, writeUInt8 header 0 sb) dev))"

text \<open>
  The statements of \<open>_downloadSegment\<close> after its \<open>if\<close>: the acknowledgement with the
  toggle bit of the context, which then flips.
\<close>

definition server_downloadSegment_ack ::
  "Transfer \<Rightarrow> 'v Device \<Rightarrow> Transfer \<times> 'v Device" where
  "server_downloadSegment_ack client dev =
     (let header = push_bit 5 1 OR push_bit 4 (toggle client)
      in (refresh (client\<lparr> toggle := toggle client XOR 1 \<rparr>),
          device_send (cobId client, writeUInt8 header 0 (alloc 8)) dev))"

definition server_downloadSegment ::
  "(byte list \<Rightarrow> nat \<Rightarrow> 'v::ord option) \<Rightarrow> Transfer \<Rightarrow> 'v Device \<Rightarrow> byte list
     \<Rightarrow> Transfer \<times> 'v Device" where
  "server_downloadSegment rtt client0 dev d =
     (if byteAt d 0 AND 0x10 \<noteq> push_bit 4 (toggle client0) then abort TOGGLE_BIT client0 dev
      else
        let count = 7 - (drop_bit 1 (byteAt d 0) AND 0x7);
            payload = slice d 1 (count + 1);
            size = length (data client0) + count;
            client = client0\<lparr> data := concat_total [data client0, payload] size \<rparr>
        in if byteAt d 0 AND 1 \<noteq> 0 then
             (case findEntry (eds dev) (index client) (subIndex client) of
                Inl code \<Rightarrow> abort code client dev
              | Inr entry \<Rightarrow>
                  if accessType entry = CONSTANT \<or> accessType entry = READ_ONLY then
                    abort READ_ONLY_CODE client dev
                  else
                    let raw = copy (data client) (alloc size) 0 0 (length (data client))
                    in case rtt raw (dataType entry) of
                         None \<Rightarrow> (client, throw RawToTypeThrew dev)
                       | Some v \<Rightarrow>
                           if (case highLimit entry of None \<Rightarrow> False | Some h \<Rightarrow> v > h) then
                             abort VALUE_HIGH client dev
                           else if (case lowLimit entry of None \<Rightarrow> False | Some l \<Rightarrow> v < l)
                           then abort VALUE_LOW client dev
                           else
                             server_downloadSegment_ack (resolve None client)
                               (dev\<lparr> eds := setRaw (eds dev) (index client) (subIndex client)
                                                 raw \<rparr>))
           else server_downloadSegment_ack client dev)"

text \<open>
  \<open>SdoServer._onMessage\<close>: the context is found by the identifier of the frame, the
  handler by the command specifier \<open>data[0] >> 5\<close>.
\<close>

definition server_onMessage ::
  "(byte list \<Rightarrow> nat \<Rightarrow> 'v::ord option) \<Rightarrow> (int \<rightharpoonup> Transfer) \<Rightarrow> 'v Device \<Rightarrow> frame
     \<Rightarrow> (int \<rightharpoonup> Transfer) \<times> 'v Device" where
  "server_onMessage rtt clients dev message =
     (case clients (fst message) of
        None \<Rightarrow> (clients, dev)
      | Some client \<Rightarrow>
          let d = snd message;
              ccs = drop_bit 5 (byteAt d 0);
              r = (if ccs = 0 then server_downloadSegment rtt client dev d
                   else if ccs = 1 then server_downloadInitiate rtt client dev d
                   else if ccs = 2 then server_uploadInitiate client dev d
                   else if ccs = 3 then server_uploadSegment client dev d
                   else if ccs = 4 then (reject_undefined client, dev)
                   else abort BAD_COMMAND client dev)
          in (clients(fst message \<mapsto> fst r), snd r))"

section \<open>The SDO client: handlers of the replies\<close>

definition client_uploadInitiate ::
  "Transfer \<Rightarrow> 'v Device \<Rightarrow> byte list \<Rightarrow> Transfer \<times> 'v Device" where
  "client_uploadInitiate transfer dev d =
     (if byteAt d 0 AND 0x02 \<noteq> 0 then
        let size = (if byteAt d 0 AND 1 \<noteq> 0
                    then 4 - (drop_bit 2 (byteAt d 0) AND 3) else 4)
        in (resolve (Some (slice d 4 (4 + size))) transfer, dev)
      else
        let sb = writeUInt8 (push_bit 5 3) 0 (alloc 8);
            transfer1 = (if byteAt d 0 AND 0x1 \<noteq> 0
                         then transfer\<lparr> sizeT := readUInt32LE d 4 \<rparr> else transfer)
        in (refresh transfer1, send sb transfer1 dev))"

definition client_uploadSegment ::
  "Transfer \<Rightarrow> 'v Device \<Rightarrow> byte list \<Rightarrow> Transfer \<times> 'v Device" where
  "client_uploadSegment transfer dev d =
     (if \<not> active transfer then (transfer, dev)
      else if byteAt d 0 AND 0x10 \<noteq> push_bit 4 (toggle transfer) then
        abort TOGGLE_BIT transfer dev
      else
        let count = 7 - (drop_bit 1 (byteAt d 0) AND 0x7);
            payload = slice d 1 (count + 1);
            size = length (data transfer) + count;
            buffer = concat_total [data transfer, payload] size
        in if byteAt d 0 AND 1 \<noteq> 0 then
             (if sizeT transfer \<noteq> size then abort BAD_LENGTH transfer dev
              else (resolve (Some buffer) transfer, dev))
           else
             let transfer1 = transfer\<lparr> toggle := toggle transfer XOR 1, data := buffer \<rparr>;
                 header = push_bit 5 3 OR push_bit 4 (toggle transfer1);
                 sb = writeUInt8 header 0 (alloc 8)
             in (refresh transfer1, send sb transfer1 dev))"

definition client_downloadInitiate ::
  "Transfer \<Rightarrow> 'v Device \<Rightarrow> Transfer \<times> 'v Device" where
  "client_downloadInitiate transfer dev =
     (if sizeT transfer \<le> 4 then (resolve None transfer, dev)
      else
        let transfer1 = transfer\<lparr> sizeT := min 7 (length (data transfer)) \<rparr>;
            sb = copy (data transfer1) (alloc 8) 1 0 (sizeT transfer1);
            header0 = push_bit 5 0 OR push_bit 1 (7 - sizeT transfer1);
            header = (if length (data transfer1) = sizeT transfer1 then header0 OR 1 else header0)
        in (refresh transfer1, send (writeUInt8 header 0 sb) transfer1 dev))"

text \<open>
  \<open>transfer.data.length - transfer.size\<close> is never negative: after the first segment
  \<open>size\<close> counts the bytes sent, and the handler returns before the subtraction when
  nothing remains.
\<close>

definition client_downloadSegment ::
  "Transfer \<Rightarrow> 'v Device \<Rightarrow> byte list \<Rightarrow> Transfer \<times> 'v Device" where
  "client_downloadSegment transfer dev d =
     (if \<not> active transfer then (transfer, dev)
      else if byteAt d 0 AND 0x10 \<noteq> push_bit 4 (toggle transfer) then
        abort TOGGLE_BIT transfer dev
      else if sizeT transfer = length (data transfer) then (resolve None transfer, dev)
      else
        let count = min 7 (length (data transfer) - sizeT transfer);
            sb = copy (data transfer) (alloc 8) 1 (sizeT transfer) (sizeT transfer + count);
            transfer1 = transfer\<lparr> toggle := toggle transfer XOR 1,
                                    sizeT := sizeT transfer + count \<rparr>;
            header0 = push_bit 5 0 OR push_bit 4 (toggle transfer1) OR push_bit 1 (7 - count);
            header = (if sizeT transfer1 = length (data transfer1) then header0 OR 1 else header0)
        in (refresh transfer1, send (writeUInt8 header 0 sb) transfer1 dev))"

text \<open>
  \<open>SdoClient._onMessage\<close>: the transfer is found by the identifier of the frame, the
  handler by the command specifier \<open>data[0] >> 5\<close>.
\<close>

definition client_onMessage ::
  "(int \<rightharpoonup> Transfer) \<Rightarrow> 'v Device \<Rightarrow> frame \<Rightarrow> (int \<rightharpoonup> Transfer) \<times> 'v Device" where
  "client_onMessage trs dev message =
     (case trs (fst message) of
        None \<Rightarrow> (trs, dev)
      | Some transfer \<Rightarrow>
          let d = snd message;
              scs = drop_bit 5 (byteAt d 0);
              r = (if scs = 0 then client_uploadSegment transfer dev d
                   else if scs = 1 then client_downloadSegment transfer dev d
                   else if scs = 2 then client_uploadInitiate transfer dev d
                   else if scs = 3 then client_downloadInitiate transfer dev
                   else if scs = 4 then abort (readUInt32LE d 4) transfer dev
                   else abort BAD_COMMAND transfer dev)
          in (trs(fst message \<mapsto> fst r), snd r))"

section \<open>The queue of pending transfers\<close>

text \<open>
  Class \<open>Queue\<close>. \<open>pop\<close> returns the queue and the transfer whose \<open>start()\<close> it
  calls, if any; \<open>settled\<close> is the body shared by the two callbacks that \<open>pop\<close>
  attaches to the promise of the started transfer (\<open>pending = false\<close>, the caller's
  promise is settled, \<open>pop()\<close>).
\<close>

record 'a Queue =
  queue :: "'a list"
  pending :: bool

definition new_Queue :: "'a Queue" where
  "new_Queue = \<lparr> queue = [], pending = False \<rparr>"

definition pop :: "'a Queue \<Rightarrow> 'a Queue \<times> 'a option" where
  "pop q =
     (if pending q then (q, None)
      else case queue q of
             [] \<Rightarrow> (q, None)
           | transfer # rest \<Rightarrow> (q\<lparr> queue := rest, pending := True \<rparr>, Some transfer))"

definition push :: "'a \<Rightarrow> 'a Queue \<Rightarrow> 'a Queue \<times> 'a option" where
  "push st q = pop (q\<lparr> queue := queue q @ [st] \<rparr>)"

definition settled :: "'a Queue \<Rightarrow> 'a Queue \<times> 'a option" where
  "settled q = pop (q\<lparr> pending := False \<rparr>)"

section \<open>The SDO client: upload and download\<close>

text \<open>
  The 32-bit operators on identifiers that come from the caller: both operands go
  through ToInt32, the result is a signed 32-bit integer.
\<close>

definition js_and :: "int \<Rightarrow> int \<Rightarrow> int" where
  "js_and a b = sint ((word_of_int a :: 32 word) AND word_of_int b)"

definition js_or :: "int \<Rightarrow> int \<Rightarrow> int" where
  "js_or a b = sint ((word_of_int a :: 32 word) OR word_of_int b)"

text \<open>
  The functions queued by \<open>upload\<close> and \<open>download\<close>, with what they capture: the
  identifiers of the server entry (never assigned after the entry is made), the index,
  the sub-index, the timeout and, for a download, the data. The index and the sub-index
  are in the range of their \<open>write\<close> methods.
\<close>

datatype Thunk =
  UploadThunk int int "16 word" "byte option" nat
| DownloadThunk int int "16 word" "byte option" nat "byte list"

record Server =
  cobIdTx :: int
  cobIdRx :: int
  serverQueue :: "Thunk Queue"

record Client =
  servers :: "int \<rightharpoonup> Server"
  transfers :: "int \<rightharpoonup> Transfer"

datatype exn =
  ServerNotMapped int | MustProvideIndex | MustProvideDataType | FailedToConvert nat

text \<open>The body of the function queued by \<open>upload\<close>.\<close>

definition startUpload ::
  "int \<Rightarrow> int \<Rightarrow> 16 word \<Rightarrow> byte option \<Rightarrow> nat \<Rightarrow> (int \<rightharpoonup> Transfer) \<Rightarrow> 'v Device
     \<Rightarrow> (int \<rightharpoonup> Transfer) \<times> 'v Device" where
  "startUpload rx tx idx sub tmo trs dev =
     (let transfer = new_Transfer Pending (Some idx) sub (alloc 0) tmo tx;
          sb = writeUInt8 (subIndexNum transfer) 3
                 (writeUInt16LE (unat idx) 1 (writeUInt8 (push_bit 5 2) 0 (alloc 8)))
      in (trs(rx \<mapsto> start transfer), device_send (tx, sb) dev))"

text \<open>The body of the function queued by \<open>download\<close>.\<close>

definition startDownload ::
  "int \<Rightarrow> int \<Rightarrow> 16 word \<Rightarrow> byte option \<Rightarrow> nat \<Rightarrow> byte list \<Rightarrow> (int \<rightharpoonup> Transfer)
     \<Rightarrow> 'v Device \<Rightarrow> (int \<rightharpoonup> Transfer) \<times> 'v Device" where
  "startDownload rx tx idx sub tmo dat trs dev =
     (let transfer = new_Transfer Pending (Some idx) sub dat tmo tx;
          header = push_bit 5 1;
          sb0 = writeUInt8 (subIndexNum transfer) 3 (writeUInt16LE (unat idx) 1 (alloc 8));
          sb = (if length dat > 4 then
                  writeUInt32LE (length dat) 4 (writeUInt8 (header OR 0x1) 0 sb0)
                else
                  copy dat (writeUInt8 (header OR (push_bit 2 (4 - length dat) OR 0x3)) 0 sb0)
                    4 0 (length dat))
      in (trs(rx \<mapsto> start transfer), device_send (tx, sb) dev))"

fun runThunk ::
  "Thunk \<Rightarrow> (int \<rightharpoonup> Transfer) \<Rightarrow> 'v Device \<Rightarrow> (int \<rightharpoonup> Transfer) \<times> 'v Device" where
  "runThunk (UploadThunk rx tx idx sub tmo) trs dev = startUpload rx tx idx sub tmo trs dev"
| "runThunk (DownloadThunk rx tx idx sub tmo dat) trs dev =
     startDownload rx tx idx sub tmo dat trs dev"

text \<open>
  The first lines of \<open>upload\<close> and of \<open>download\<close>, the same in both: the entry of the
  server, or one made from the entry of server 0, or the ReferenceError. The result is
  the table of servers as the lines leave it, with the entry to use.
\<close>

definition deriveCobId :: "int \<Rightarrow> int \<Rightarrow> int" where
  "deriveCobId c serverId = (if js_and c 0xF = 0 then js_or c serverId else c)"

definition findServer ::
  "(int \<rightharpoonup> Server) \<Rightarrow> int \<Rightarrow> exn + (int \<rightharpoonup> Server) \<times> Server" where
  "findServer srv serverId =
     (case srv serverId of
        Some server \<Rightarrow> Inr (srv, server)
      | None \<Rightarrow>
          (case srv 0 of
             None \<Rightarrow> Inl (ServerNotMapped serverId)
           | Some server0 \<Rightarrow>
               let server = \<lparr> cobIdTx = deriveCobId (cobIdTx server0) serverId,
                              cobIdRx = deriveCobId (cobIdRx server0) serverId,
                              serverQueue = new_Queue \<rparr>
               in Inr (srv(serverId \<mapsto> server), server)))"

text \<open>
  \<open>server.queue.push(...)\<close>: the function joins the queue of the entry and, when the
  queue was idle, runs at once.
\<close>

definition enqueue ::
  "int \<Rightarrow> Server \<Rightarrow> Thunk \<Rightarrow> Client \<Rightarrow> 'v Device \<Rightarrow> Client \<times> 'v Device" where
  "enqueue serverId server thunk cl dev =
     (let r = push thunk (serverQueue server);
          cl1 = cl\<lparr> servers := (servers cl)(serverId \<mapsto> server\<lparr> serverQueue := fst r \<rparr>) \<rparr>
      in case snd r of
           None \<Rightarrow> (cl1, dev)
         | Some th \<Rightarrow>
             let s = runThunk th (transfers cl1) dev
             in (cl1\<lparr> transfers := fst s \<rparr>, snd s))"

text \<open>
  \<open>upload\<close> and \<open>download\<close> return the client and the device as the call leaves them,
  and the exception if the call throws. The conversion of the uploaded bytes by
  \<open>rawToType\<close>, after the transfer, is not part of the model; \<open>typeToRaw\<close> is the
  parameter \<open>ttr\<close> (\<open>None\<close> for \<open>undefined\<close>), and a falsy \<open>dataType\<close> is \<open>None\<close>.
\<close>

definition upload ::
  "Client \<Rightarrow> 'v Device \<Rightarrow> int \<Rightarrow> 16 word option \<Rightarrow> byte option \<Rightarrow> nat
     \<Rightarrow> Client \<times> 'v Device \<times> exn option" where
  "upload cl dev serverId idx sub tmo =
     (case findServer (servers cl) serverId of
        Inl e \<Rightarrow> (cl, dev, Some e)
      | Inr found \<Rightarrow>
          let cl1 = cl\<lparr> servers := fst found \<rparr>; server = snd found
          in case idx of
               None \<Rightarrow> (cl1, dev, Some MustProvideIndex)
             | Some i \<Rightarrow>
                 let r = enqueue serverId server
                           (UploadThunk (cobIdRx server) (cobIdTx server) i sub tmo) cl1 dev
                 in (fst r, snd r, None))"

definition download ::
  "('w \<Rightarrow> nat \<Rightarrow> byte list option) \<Rightarrow> Client \<Rightarrow> 'v Device \<Rightarrow> int \<Rightarrow> byte list + 'w
     \<Rightarrow> 16 word option \<Rightarrow> byte option \<Rightarrow> nat \<Rightarrow> nat option
     \<Rightarrow> Client \<times> 'v Device \<times> exn option" where
  "download ttr cl dev serverId dat idx sub tmo dtype =
     (case findServer (servers cl) serverId of
        Inl e \<Rightarrow> (cl, dev, Some e)
      | Inr found \<Rightarrow>
          let cl1 = cl\<lparr> servers := fst found \<rparr>; server = snd found
          in case idx of
               None \<Rightarrow> (cl1, dev, Some MustProvideIndex)
             | Some i \<Rightarrow>
                 (case (case dat of
                          Inl buf \<Rightarrow> Inr buf
                        | Inr v \<Rightarrow>
                            (case dtype of
                               None \<Rightarrow> Inl MustProvideDataType
                             | Some ty \<Rightarrow>
                                 (case ttr v ty of
                                    None \<Rightarrow> Inl (FailedToConvert ty)
                                  | Some buf \<Rightarrow> Inr buf))) of
                    Inl e \<Rightarrow> (cl1, dev, Some e)
                  | Inr buf \<Rightarrow>
                      let r = enqueue serverId server
                                (DownloadThunk (cobIdRx server) (cobIdTx server) i sub tmo buf)
                                cl1 dev
                      in (fst r, snd r, None)))"

text \<open>
  The callback of \<open>pop\<close> for the queue of one server, once the promise of its running
  transfer is settled: the queue is idle again and the next function, if any, runs.
\<close>

definition client_settled :: "int \<Rightarrow> Client \<Rightarrow> 'v Device \<Rightarrow> Client \<times> 'v Device" where
  "client_settled serverId cl dev =
     (case servers cl serverId of
        None \<Rightarrow> (cl, dev)
      | Some server \<Rightarrow>
          let r = settled (serverQueue server);
              cl1 = cl\<lparr> servers := (servers cl)(serverId \<mapsto> server\<lparr> serverQueue := fst r \<rparr>) \<rparr>
          in case snd r of
               None \<Rightarrow> (cl1, dev)
             | Some th \<Rightarrow>
                 let s = runThunk th (transfers cl1) dev
                 in (cl1\<lparr> transfers := fst s \<rparr>, snd s))"

section \<open>One queue over time\<close>

text \<open>
  The life of the queue of one server, as a sequence of events on the single thread of
  the event loop:
  \<^item> \<open>Push x\<close>: \<open>upload\<close> or \<open>download\<close> calls \<open>queue.push\<close> with the function \<open>x\<close>;
  \<^item> \<open>Settle\<close>: the running transfer is resolved, rejected or aborted
    (\<open>Transfer.resolve\<close>, \<open>Transfer.reject\<close>: \<open>active\<close> becomes false and the promise
    made by the function is settled; a promise settles once);
  \<^item> \<open>React\<close>: the callback that \<open>pop\<close> attached to that promise runs, a later
    job of the event loop: it settles the promise of the caller and calls \<open>pop\<close>.
  \<open>running\<close> is what the callbacks of \<open>pop\<close> hold: the started function, and whether
  its promise is settled. \<open>qlog\<close> records, oldest first, each function started (which
  makes its transfer active), each transfer settled and each result reported to the
  caller.
\<close>

datatype 'a qevent = Push 'a | Settle | React

datatype 'a qlog = Started 'a | Settled 'a | Reported 'a

record 'a qsys =
  qstate :: "'a Queue"
  running :: "('a \<times> bool) option"
  qlog :: "'a qlog list"

definition qinit :: "'a qsys" where
  "qinit = \<lparr> qstate = new_Queue, running = None, qlog = [] \<rparr>"

fun qstep :: "'a qevent \<Rightarrow> 'a qsys \<Rightarrow> 'a qsys" where
  "qstep (Push x) s =
     (let r = push x (qstate s)
      in s\<lparr> qstate := fst r,
            running := (case snd r of None \<Rightarrow> running s | Some t \<Rightarrow> Some (t, False)),
            qlog := qlog s @ (case snd r of None \<Rightarrow> [] | Some t \<Rightarrow> [Started t]) \<rparr>)"
| "qstep Settle s =
     (case running s of
        Some (t, False) \<Rightarrow> s\<lparr> running := Some (t, True), qlog := qlog s @ [Settled t] \<rparr>
      | _ \<Rightarrow> s)"
| "qstep React s =
     (case running s of
        Some (t, True) \<Rightarrow>
          (let r = settled (qstate s)
           in s\<lparr> qstate := fst r,
                 running := (case snd r of None \<Rightarrow> None | Some u \<Rightarrow> Some (u, False)),
                 qlog := qlog s @ [Reported t]
                           @ (case snd r of None \<Rightarrow> [] | Some u \<Rightarrow> [Started u]) \<rparr>)
      | _ \<Rightarrow> s)"

definition qrun :: "'a qevent list \<Rightarrow> 'a qsys" where
  "qrun es = foldl (\<lambda>s e. qstep e s) qinit es"

text \<open>The functions submitted by a sequence of events, in the order of submission.\<close>

fun pushed :: "'a qevent list \<Rightarrow> 'a list" where
  "pushed [] = []"
| "pushed (Push x # es) = x # pushed es"
| "pushed (Settle # es) = pushed es"
| "pushed (React # es) = pushed es"

text \<open>The three records of one transfer, and those still to come for the running one.\<close>

definition lifecycle :: "'a \<Rightarrow> 'a qlog list" where
  "lifecycle x = [Started x, Settled x, Reported x]"

fun remaining :: "('a \<times> bool) option \<Rightarrow> 'a qlog list" where
  "remaining None = []"
| "remaining (Some (t, False)) = [Settled t, Reported t]"
| "remaining (Some (t, True)) = [Reported t]"

fun is_Started :: "'a qlog \<Rightarrow> bool" where
  "is_Started (Started x) = True"
| "is_Started (Settled x) = False"
| "is_Started (Reported x) = False"

fun is_Settled :: "'a qlog \<Rightarrow> bool" where
  "is_Settled (Started x) = False"
| "is_Settled (Settled x) = True"
| "is_Settled (Reported x) = False"

text \<open>
  What was submitted is what the log holds, then what the running transfer still owes,
  then the waiting functions; the queue is busy exactly while a function is running, and
  nothing waits in an idle queue.
\<close>

definition qinv :: "'a list \<Rightarrow> 'a qsys \<Rightarrow> bool" where
  "qinv xs s =
     (concat (map lifecycle xs)
        = qlog s @ remaining (running s) @ concat (map lifecycle (queue (qstate s)))
      \<and> pending (qstate s) = (running s \<noteq> None)
      \<and> (running s = None \<longrightarrow> queue (qstate s) = []))"

section \<open>What a download frame carries, and when a write is allowed\<close>

text \<open>
  The bytes that an expedited download initiate carries (\<open>count\<close> and \<open>raw\<close> of
  \<open>_downloadInitiate\<close>), the bytes of one download segment (\<open>payload\<close> of
  \<open>_downloadSegment\<close>) and the buffer of the context once the segment is appended.
\<close>

definition expeditedData :: "byte list \<Rightarrow> byte list" where
  "expeditedData d =
     (let count = (if byteAt d 0 AND 1 \<noteq> 0 then 4 - (drop_bit 2 (byteAt d 0) AND 3) else 4)
      in copy d (alloc count) 0 4 (count + 4))"

definition segmentCount :: "byte list \<Rightarrow> nat" where
  "segmentCount d = 7 - (drop_bit 1 (byteAt d 0) AND 0x7)"

definition segmentData :: "byte list \<Rightarrow> byte list" where
  "segmentData d = slice d 1 (segmentCount d + 1)"

definition received :: "Transfer \<Rightarrow> byte list \<Rightarrow> byte list" where
  "received client d =
     concat_total [data client, segmentData d] (length (data client) + segmentCount d)"

text \<open>
  What both download handlers do with the bytes \<open>r\<close> for the entry at an index and
  sub-index, in the order of the source: a missing object or sub-index and a constant or
  read-only entry are refused with an abort code; then \<open>rawToType\<close> is called, and
  the handler is left if it throws; then a value above or below the limits of the entry
  is refused; otherwise \<open>entry.raw\<close> is assigned.
\<close>

datatype outcome = Commit | Refuse nat | Throw

definition downloadOutcome ::
  "(byte list \<Rightarrow> nat \<Rightarrow> 'v::ord option) \<Rightarrow> 'v eds \<Rightarrow> 16 word option \<Rightarrow> byte option
     \<Rightarrow> byte list \<Rightarrow> outcome" where
  "downloadOutcome rtt od idx sub r =
     (case findEntry od idx sub of
        Inl code \<Rightarrow> Refuse code
      | Inr entry \<Rightarrow>
          if accessType entry = CONSTANT \<or> accessType entry = READ_ONLY
          then Refuse READ_ONLY_CODE
          else
            (case rtt r (dataType entry) of
               None \<Rightarrow> Throw
             | Some v \<Rightarrow>
                 if (case highLimit entry of None \<Rightarrow> False | Some h \<Rightarrow> v > h)
                 then Refuse VALUE_HIGH
                 else if (case lowLimit entry of None \<Rightarrow> False | Some l \<Rightarrow> v < l)
                 then Refuse VALUE_LOW
                 else Commit))"

text \<open>
  The checks passed: the entry exists, it is neither constant nor read-only,
  \<open>rawToType\<close> yields a value for the new bytes, and the value is within the limits
  the entry has.
\<close>

definition downloadAllowed ::
  "(byte list \<Rightarrow> nat \<Rightarrow> 'v::ord option) \<Rightarrow> 'v eds \<Rightarrow> 16 word option \<Rightarrow> byte option
     \<Rightarrow> byte list \<Rightarrow> bool" where
  "downloadAllowed rtt od idx sub r =
     (case findEntry od idx sub of
        Inl code \<Rightarrow> False
      | Inr entry \<Rightarrow>
          accessType entry \<noteq> CONSTANT \<and> accessType entry \<noteq> READ_ONLY
          \<and> (case rtt r (dataType entry) of
                None \<Rightarrow> False
              | Some v \<Rightarrow>
                  (case highLimit entry of None \<Rightarrow> True | Some h \<Rightarrow> \<not> v > h)
                  \<and> (case lowLimit entry of None \<Rightarrow> True | Some l \<Rightarrow> \<not> v < l)))"

text \<open>
  \<open>rawToType\<close> throws: the entry exists and may be written, and the new bytes are
  not a value of its data type.
\<close>

definition downloadThrows ::
  "(byte list \<Rightarrow> nat \<Rightarrow> 'v::ord option) \<Rightarrow> 'v eds \<Rightarrow> 16 word option \<Rightarrow> byte option
     \<Rightarrow> byte list \<Rightarrow> bool" where
  "downloadThrows rtt od idx sub r =
     (case findEntry od idx sub of
        Inl code \<Rightarrow> False
      | Inr entry \<Rightarrow>
          accessType entry \<noteq> CONSTANT \<and> accessType entry \<noteq> READ_ONLY
          \<and> rtt r (dataType entry) = None)"

section \<open>Concrete devices, for the scenarios\<close>

text \<open>
  A client with one server, node 0x0B, reached on 0x60B and answering on 0x58B; a
  dictionary with an UNSIGNED8 at 0x2000, an UNSIGNED32 at 0x2001, a read-only
  UNSIGNED8 at 0x2002 and a string at 0x2003; \<open>rawToType\<close> reads
  \<open>raw\<close> as a little-endian unsigned number, and throws on less than the 1 byte of
  an UNSIGNED8 (data type 5) or the 4 bytes of an UNSIGNED32 (data type 7).
\<close>

definition server0B :: Server where
  "server0B = \<lparr> cobIdTx = 0x60B, cobIdRx = 0x58B, serverQueue = new_Queue \<rparr>"

definition client1 :: Client where
  "client1 = \<lparr> servers = Map.empty(0x0B \<mapsto> server0B), transfers = Map.empty \<rparr>"

definition plainEntry :: "AccessType \<Rightarrow> nat \<Rightarrow> byte list \<Rightarrow> int DataObject" where
  "plainEntry acc ty r =
     \<lparr> top = \<lparr> accessType = acc, dataType = ty, highLimit = None, lowLimit = None,
               sizeE = length r, raw = r \<rparr>,
       subNumber = 0, subs = (\<lambda>s. None) \<rparr>"

definition eds1 :: "int eds" where
  "eds1 = (Map.empty(0x2000 \<mapsto> plainEntry READ_WRITE 5 [0x42]))
            (0x2001 \<mapsto> plainEntry READ_WRITE 7 [0xDE, 0xAD, 0xBE, 0xEF],
             0x2002 \<mapsto> plainEntry READ_ONLY 5 [0x07],
             0x2003 \<mapsto> plainEntry READ_WRITE 9 [])"

definition device1 :: "int Device" where
  "device1 = \<lparr> eds = eds1, sent = [], faults = [] \<rparr>"

fun le_uint :: "byte list \<Rightarrow> int" where
  "le_uint [] = 0"
| "le_uint (b # bs) = uint b + 256 * le_uint bs"

definition rtt1 :: "byte list \<Rightarrow> nat \<Rightarrow> int option" where
  "rtt1 r ty =
     (if ty = 5 \<and> length r < 1 then None
      else if ty = 7 \<and> length r < 4 then None
      else Some (le_uint r))"

text \<open>The context that the server keeps for the client, before any frame.\<close>

definition context1 :: Transfer where
  "context1 = new_Transfer NoFuture None None [] 0 0x58B"

text \<open>
  The transfer that \<open>upload\<close> of 0x2000 starts on \<open>client1\<close>, and the transfer that
  \<open>download\<close> of "HelloWorld" to 0x2002 has become once its first segment is out.
\<close>

definition uploading :: Transfer where
  "uploading = start (new_Transfer Pending (Some 0x2000) None [] 30 0x60B)"

definition helloWorld :: "byte list" where
  "helloWorld = [0x48, 0x65, 0x6C, 0x6C, 0x6F, 0x57, 0x6F, 0x72, 0x6C, 0x64]"

definition downloading :: Transfer where
  "downloading = (start (new_Transfer Pending (Some 0x2002) (Some 0) helloWorld 30 0x60B))
                   \<lparr> sizeT := 7 \<rparr>"

text \<open>A client whose only entry is the default one, server 0, on 0x600 and 0x580.\<close>

definition server00 :: Server where
  "server00 = \<lparr> cobIdTx = 0x600, cobIdRx = 0x580, serverQueue = new_Queue \<rparr>"

definition client0 :: Client where
  "client0 = \<lparr> servers = Map.empty(0 \<mapsto> server00), transfers = Map.empty \<rparr>"

text \<open>
  The context of the server once the client has opened a segmented download to 0x2003.
\<close>

definition context3 :: Transfer where
  "context3 = start (context1\<lparr> index := Some 0x2003, subIndex := Some 0, data := alloc 0,
                               sizeT := 0, toggle := 0 \<rparr>)"

section \<open>Unfolding rules\<close>

lemmas SdoCode_defs =
  TOGGLE_BIT_def TIMEOUT_def BAD_COMMAND_def BAD_BLOCK_SIZE_def BAD_BLOCK_SEQUENCE_def
  BAD_BLOCK_CRC_def OUT_OF_MEMORY_def UNSUPPORTED_ACCESS_def WRITE_ONLY_CODE_def
  READ_ONLY_CODE_def OBJECT_UNDEFINED_def OBJECT_NOT_MAPPABLE_def MAP_LENGTH_def
  PARAMETER_INCOMPATIBILITY_def DEVICE_INCOMPATIBILITY_def HARDWARE_ERROR_def
  BAD_LENGTH_def DATA_LONG_def DATA_SHORT_def BAD_SUB_INDEX_def BAD_VALUE_def
  VALUE_HIGH_def VALUE_LOW_def RANGE_ERROR_def SDO_NOT_AVAILBLE_def GENERAL_ERROR_def
  DATA_TRANSFER_def LOCAL_CONTROL_def DEVICE_STATE_def OD_ERROR_def NO_DATA_def

section \<open>Frames, byte by byte\<close>

lemma alloc_8: "alloc 8 = [0, 0, 0, 0, 0, 0, 0, 0]"
  by (simp add: alloc_def numeral_eq_Suc)

lemma alloc_0: "alloc 0 = []"
  by (simp add: alloc_def)

lemma header_frame:
  "writeUInt8 s 3 (writeUInt16LE i 1 (writeUInt8 h 0 (alloc 8)))
     = [of_nat h, of_nat i, of_nat (i div 256), of_nat s, 0, 0, 0, 0]"
  by (simp add: alloc_8 writeUInt8_def writeUInt16LE_def)

lemma header_frame_Suc:
  "writeUInt8 s 3 (writeUInt16LE i (Suc 0) (writeUInt8 h 0 (alloc 8)))
     = [of_nat h, of_nat i, of_nat (i div 256), of_nat s, 0, 0, 0, 0]"
  using header_frame [of s i h] by simp

lemma header_only: "writeUInt8 h 0 (alloc 8) = [of_nat h, 0, 0, 0, 0, 0, 0, 0]"
  by (simp add: alloc_8 writeUInt8_def)

lemma abortFrame_bytes:
  "abortFrame t code =
     [0x80, of_nat (indexNum t), of_nat (indexNum t div 256), of_nat (subIndexNum t),
      of_nat code, of_nat (code div 256), of_nat (code div 65536), of_nat (code div 16777216)]"
  by (simp only: abortFrame_def header_frame) (simp add: writeUInt32LE_def)

lemma abort_result:
  "abort code t dev =
     (reject code t, dev\<lparr> sent := sent dev @ [(cobId t, abortFrame t code)] \<rparr>)"
  by (simp add: abort_def send_def device_send_def)

lemma abortFrame_head: "byteAt (abortFrame t code) 0 = 0x80"
  by (simp add: abortFrame_bytes byteAt_def)

lemma abortFrame_code:
  "abortFrame t code = abortFrame t' code' \<Longrightarrow> (of_nat code :: byte) = of_nat code'"
  by (simp add: abortFrame_bytes)

lemma and_exp_nat: "(h::nat) AND 2 ^ n = (if bit h n then 2 ^ n else 0)"
  by (rule bit_eqI) (auto simp add: bit_and_iff bit_exp_iff)

lemma toggle_guard:
  "tg \<le> 1 \<Longrightarrow> ((h::nat) AND 0x10 \<noteq> push_bit 4 tg) = (bit h 4 \<noteq> (tg = 1))"
  using and_exp_nat [of h 4] by (cases "tg = 0") (auto simp: le_Suc_eq)

lemma byteAt_take: "i < n \<Longrightarrow> byteAt (take n d) i = byteAt d i"
  by (simp add: byteAt_def)

lemma head_bytes:
  assumes "take 4 d = take 4 d'"
  shows "byteAt d 0 = byteAt d' 0" "readUInt16LE d 1 = readUInt16LE d' 1"
    "byteAt d 3 = byteAt d' 3"
proof -
  have "byteAt (take 4 d) i = byteAt (take 4 d') i" for i
    using assms by simp
  then have b: "i < 4 \<Longrightarrow> byteAt d i = byteAt d' i" for i
    using byteAt_take [of i 4 d] byteAt_take [of i 4 d'] by simp
  from b [of 0] show "byteAt d 0 = byteAt d' 0" by simp
  from b [of "Suc 0"] b [of "Suc (Suc 0)"] show "readUInt16LE d 1 = readUInt16LE d' 1"
    by (simp add: readUInt16LE_def)
  from b [of 3] show "byteAt d 3 = byteAt d' 3" by simp
qed

lemma copy_Cons_Suc: "copy src (a # target) (Suc n) s e = a # copy src target n s e"
  by (simp add: copy_def Let_def)

lemma copy_Cons_4: "copy src (a # target) 4 s e = a # copy src target 3 s e"
  using copy_Cons_Suc [of src a target 3 s e] by simp

lemma copy_whole: "copy src (alloc (length src)) 0 0 (length src) = src"
  by (simp add: copy_def alloc_def)

lemma length_concat_total: "length (concat_total bufs n) = n"
  by (simp add: concat_total_def)

lemma list_of_length:
  "length xs = 1 \<Longrightarrow> \<exists>a. xs = [a]"
  "length xs = 2 \<Longrightarrow> \<exists>a b. xs = [a, b]"
  "length xs = 3 \<Longrightarrow> \<exists>a b c. xs = [a, b, c]"
  "length xs = 4 \<Longrightarrow> \<exists>a b c d. xs = [a, b, c, d]"
  by (auto simp: length_Suc_conv numeral_eq_Suc)

lemma replicate_small: "replicate 2 x = [x, x]" "replicate 3 x = [x, x, x]"
  by (simp_all add: numeral_eq_Suc)

section \<open>The server: the download handlers, case by case\<close>

lemma downloadInitiateAck_head: "byteAt (downloadInitiateAck c) 0 = 0x60"
  by (simp add: downloadInitiateAck_def header_frame_Suc byteAt_def)

lemma downloadInitiateAck_not_abort: "downloadInitiateAck c \<noteq> abortFrame t code"
proof
  assume "downloadInitiateAck c = abortFrame t code"
  then have "byteAt (downloadInitiateAck c) 0 = byteAt (abortFrame t code) 0"
    by simp
  then show False
    by (simp add: downloadInitiateAck_head abortFrame_head)
qed

lemma segment_ack_head:
  "byteAt (writeUInt8 (push_bit 5 1 OR push_bit 4 tg) 0 (alloc 8)) 0 \<noteq> 0x80"
proof
  assume "byteAt (writeUInt8 (push_bit 5 1 OR push_bit 4 tg) 0 (alloc 8)) 0 = 0x80"
  then have "unat (of_nat (push_bit 5 1 OR push_bit 4 tg) :: byte) = 0x80"
    by (simp add: header_only byteAt_def)
  then have "bit (unat (of_nat (push_bit 5 1 OR push_bit 4 tg) :: byte)) 5 = bit (0x80 :: nat) 5"
    by simp
  then show False
    by (simp add: bit_unsigned_iff bit_of_nat_iff bit_or_iff bit_push_bit_iff bit_0)
qed

lemma segment_ack_head_32:
  "byteAt (writeUInt8 (32 OR push_bit 4 tg) 0 (alloc 8)) 0 \<noteq> 128"
  using segment_ack_head [of tg] by simp

lemma downloadAllowed_outcome:
  "downloadAllowed rtt od idx sub r = (downloadOutcome rtt od idx sub r = Commit)"
  by (simp add: downloadAllowed_def downloadOutcome_def split: sum.splits option.splits)

lemma downloadThrows_outcome:
  "downloadThrows rtt od idx sub r = (downloadOutcome rtt od idx sub r = Throw)"
  by (simp add: downloadThrows_def downloadOutcome_def split: sum.splits option.splits)

lemma downloadRefuse_codes:
  "downloadOutcome rtt od idx sub r = Refuse code \<Longrightarrow>
     code \<in> {OBJECT_UNDEFINED, BAD_SUB_INDEX, READ_ONLY_CODE, VALUE_HIGH, VALUE_LOW}"
  by (auto simp add: downloadOutcome_def findEntry_def
        split: sum.splits option.splits if_splits)

lemma server_downloadInitiate_cases:
  "server_downloadInitiate rtt client dev d =
     (let c = client\<lparr> index := Some (of_nat (readUInt16LE d 1)),
                       subIndex := Some (of_nat (byteAt d 3)) \<rparr>
      in if byteAt d 0 AND 0x02 \<noteq> 0 then
           (case downloadOutcome rtt (eds dev) (index c) (subIndex c) (expeditedData d) of
              Commit \<Rightarrow>
                (c, device_send (cobId c, downloadInitiateAck c)
                      (dev\<lparr> eds := setRaw (eds dev) (index c) (subIndex c)
                                        (expeditedData d) \<rparr>))
            | Refuse code \<Rightarrow> abort code c dev
            | Throw \<Rightarrow> (c, throw RawToTypeThrew dev))
         else
           (start (c\<lparr> data := alloc 0, sizeT := 0, toggle := 0 \<rparr>),
            device_send (cobId c, downloadInitiateAck c) dev))"
  by (simp add: server_downloadInitiate_def downloadOutcome_def expeditedData_def Let_def
        split: sum.splits option.splits)

lemma server_downloadSegment_cases:
  "server_downloadSegment rtt client dev d =
     (if byteAt d 0 AND 0x10 \<noteq> push_bit 4 (toggle client) then abort TOGGLE_BIT client dev
      else
        let c = client\<lparr> data := received client d \<rparr>
        in if byteAt d 0 AND 1 \<noteq> 0 then
             (case downloadOutcome rtt (eds dev) (index c) (subIndex c) (received client d) of
                Commit \<Rightarrow>
                  server_downloadSegment_ack (resolve None c)
                    (dev\<lparr> eds := setRaw (eds dev) (index c) (subIndex c)
                                      (received client d) \<rparr>)
              | Refuse code \<Rightarrow> abort code c dev
              | Throw \<Rightarrow> (c, throw RawToTypeThrew dev))
           else server_downloadSegment_ack c dev)"
proof -
  have w: "copy (received client d) (alloc (length (data client) + segmentCount d)) 0 0
             (length (received client d)) = received client d"
    using copy_whole [of "received client d"]
    by (simp add: received_def length_concat_total)
  show ?thesis
    using w
    by (simp add: server_downloadSegment_def downloadOutcome_def
          received_def segmentData_def segmentCount_def Let_def
          split: sum.splits option.splits)
qed

lemma server_downloadInitiate_segmented:
  assumes "byteAt d 0 AND 0x02 = 0"
  shows "server_downloadInitiate rtt client dev d =
           (let c = client\<lparr> index := Some (of_nat (readUInt16LE d 1)),
                             subIndex := Some (of_nat (byteAt d 3)) \<rparr>
            in (start (c\<lparr> data := alloc 0, sizeT := 0, toggle := 0 \<rparr>),
                device_send (cobId c, downloadInitiateAck c) dev))"
  using assms by (simp add: server_downloadInitiate_cases Let_def)

lemma server_downloadInitiate_eds:
  "eds (snd (server_downloadInitiate rtt client dev d))
     = (if byteAt d 0 AND 0x02 \<noteq> 0
           \<and> downloadAllowed rtt (eds dev) (Some (of_nat (readUInt16LE d 1)))
                (Some (of_nat (byteAt d 3))) (expeditedData d)
        then setRaw (eds dev) (Some (of_nat (readUInt16LE d 1))) (Some (of_nat (byteAt d 3)))
               (expeditedData d)
        else eds dev)"
  by (simp add: server_downloadInitiate_cases downloadAllowed_outcome Let_def abort_result
        device_send_def throw_def split: outcome.splits)

lemma server_downloadInitiate_sent:
  "if byteAt d 0 AND 0x02 \<noteq> 0
      \<and> downloadThrows rtt (eds dev) (Some (of_nat (readUInt16LE d 1)))
           (Some (of_nat (byteAt d 3))) (expeditedData d)
   then sent (snd (server_downloadInitiate rtt client dev d)) = sent dev
   else (\<exists>fr. sent (snd (server_downloadInitiate rtt client dev d))
                = sent dev @ [(cobId client, fr)]
              \<and> (byteAt fr 0 = 0x80)
                  = (byteAt d 0 AND 0x02 \<noteq> 0
                     \<and> \<not> downloadAllowed rtt (eds dev) (Some (of_nat (readUInt16LE d 1)))
                            (Some (of_nat (byteAt d 3))) (expeditedData d)))"
  by (simp add: server_downloadInitiate_cases downloadAllowed_outcome downloadThrows_outcome
        Let_def abort_result device_send_def throw_def abortFrame_head
        downloadInitiateAck_head split: outcome.splits)

lemma server_downloadInitiate_faults:
  "faults (snd (server_downloadInitiate rtt client dev d))
     = (if byteAt d 0 AND 0x02 \<noteq> 0
           \<and> downloadThrows rtt (eds dev) (Some (of_nat (readUInt16LE d 1)))
                (Some (of_nat (byteAt d 3))) (expeditedData d)
        then faults dev @ [RawToTypeThrew] else faults dev)"
  by (simp add: server_downloadInitiate_cases downloadThrows_outcome Let_def abort_result
        send_def device_send_def throw_def split: outcome.splits)

lemma server_downloadSegment_eds:
  "eds (snd (server_downloadSegment rtt client dev d))
     = (if byteAt d 0 AND 0x10 = push_bit 4 (toggle client) \<and> byteAt d 0 AND 1 \<noteq> 0
           \<and> downloadAllowed rtt (eds dev) (index client) (subIndex client) (received client d)
        then setRaw (eds dev) (index client) (subIndex client) (received client d)
        else eds dev)"
  by (simp add: server_downloadSegment_cases downloadAllowed_outcome Let_def abort_result
        device_send_def throw_def server_downloadSegment_ack_def split: outcome.splits)

lemma server_downloadSegment_sent:
  "if byteAt d 0 AND 0x10 = push_bit 4 (toggle client) \<and> byteAt d 0 AND 1 \<noteq> 0
      \<and> downloadThrows rtt (eds dev) (index client) (subIndex client) (received client d)
   then sent (snd (server_downloadSegment rtt client dev d)) = sent dev
   else (\<exists>fr. sent (snd (server_downloadSegment rtt client dev d))
                = sent dev @ [(cobId client, fr)]
              \<and> (byteAt fr 0 = 0x80)
                  = (byteAt d 0 AND 0x10 \<noteq> push_bit 4 (toggle client)
                     \<or> byteAt d 0 AND 1 \<noteq> 0
                        \<and> \<not> downloadAllowed rtt (eds dev) (index client) (subIndex client)
                               (received client d)))"
  by (simp add: server_downloadSegment_cases downloadAllowed_outcome downloadThrows_outcome
        Let_def abort_result device_send_def throw_def server_downloadSegment_ack_def
        abortFrame_head segment_ack_head_32 resolve_def split: outcome.splits)

lemma server_downloadSegment_faults:
  "faults (snd (server_downloadSegment rtt client dev d))
     = (if byteAt d 0 AND 0x10 = push_bit 4 (toggle client) \<and> byteAt d 0 AND 1 \<noteq> 0
           \<and> downloadThrows rtt (eds dev) (index client) (subIndex client) (received client d)
        then faults dev @ [RawToTypeThrew] else faults dev)"
  by (simp add: server_downloadSegment_cases downloadThrows_outcome Let_def abort_result
        send_def device_send_def throw_def server_downloadSegment_ack_def
        split: outcome.splits)

lemma server_downloadSegment_sizeT:
  "server_downloadSegment rtt (client\<lparr> sizeT := n \<rparr>) dev d
     = ((fst (server_downloadSegment rtt client dev d))\<lparr> sizeT := n \<rparr>,
        snd (server_downloadSegment rtt client dev d))"
  by (simp add: server_downloadSegment_cases Let_def abort_result abortFrame_bytes reject_def
        resolve_def refresh_def server_downloadSegment_ack_def received_def indexNum_def
        subIndexNum_def split: outcome.splits)

lemma segmentCount_le: "segmentCount d \<le> 7"
  by (simp add: segmentCount_def)

lemma received_append:
  assumes "length d = 8"
  shows "received client d = data client @ segmentData d"
    and "length (segmentData d) = segmentCount d"
proof -
  show l: "length (segmentData d) = segmentCount d"
    using assms segmentCount_le [of d] by (simp add: segmentData_def slice_def)
  then show "received client d = data client @ segmentData d"
    by (simp add: received_def concat_total_def)
qed

lemma not_BAD_LENGTH:
  assumes "code \<in> {OBJECT_UNDEFINED, BAD_SUB_INDEX, READ_ONLY_CODE, VALUE_HIGH, VALUE_LOW,
                     TOGGLE_BIT}"
  shows "abortFrame t code \<noteq> abortFrame t' BAD_LENGTH"
proof
  assume "abortFrame t code = abortFrame t' BAD_LENGTH"
  then have "(of_nat code :: byte) = of_nat BAD_LENGTH"
    by (rule abortFrame_code)
  with assms show False
    by (auto simp add: SdoCode_defs)
qed

lemma server_downloadInitiate_no_BAD_LENGTH:
  "sent (snd (server_downloadInitiate rtt client dev d))
     \<noteq> sent dev @ [(x, abortFrame t BAD_LENGTH)]"
proof
  assume a: "sent (snd (server_downloadInitiate rtt client dev d))
     = sent dev @ [(x, abortFrame t BAD_LENGTH)]"
  let ?c = "client\<lparr> index := Some (of_nat (readUInt16LE d 1)),
                      subIndex := Some (of_nat (byteAt d 3)) \<rparr>"
  let ?o = "downloadOutcome rtt (eds dev) (index ?c) (subIndex ?c) (expeditedData d)"
  show False
  proof (cases "byteAt d 0 AND 0x02 \<noteq> 0")
    case False
    with a show False
      by (simp add: server_downloadInitiate_cases Let_def device_send_def
            downloadInitiateAck_not_abort)
  next
    case True
    show False
    proof (cases ?o)
      case Commit
      with a True show False
        by (simp add: server_downloadInitiate_cases Let_def device_send_def
              downloadInitiateAck_not_abort)
    next
      case (Refuse code)
      with a True have "abortFrame ?c code = abortFrame t BAD_LENGTH"
        by (simp add: server_downloadInitiate_cases Let_def abort_result)
      moreover from Refuse
      have "code \<in> {OBJECT_UNDEFINED, BAD_SUB_INDEX, READ_ONLY_CODE, VALUE_HIGH, VALUE_LOW}"
        by (rule downloadRefuse_codes)
      ultimately show False
        using not_BAD_LENGTH [of code ?c t] by blast
    next
      case Throw
      with a True show False
        by (simp add: server_downloadInitiate_cases Let_def throw_def)
    qed
  qed
qed

lemma server_downloadSegment_no_BAD_LENGTH:
  "sent (snd (server_downloadSegment rtt client dev d))
     \<noteq> sent dev @ [(x, abortFrame t BAD_LENGTH)]"
proof
  assume a: "sent (snd (server_downloadSegment rtt client dev d))
     = sent dev @ [(x, abortFrame t BAD_LENGTH)]"
  let ?c = "client\<lparr> data := received client d \<rparr>"
  let ?o = "downloadOutcome rtt (eds dev) (index ?c) (subIndex ?c) (received client d)"
  have h: "byteAt (abortFrame t BAD_LENGTH) 0 = 0x80"
    by (rule abortFrame_head)
  have ack: "sent (snd (server_downloadSegment_ack c' dev')) \<noteq> sent dev' @ [(x, abortFrame t BAD_LENGTH)]"
    for c' :: Transfer and dev' :: "'a Device"
    using segment_ack_head_32 [of "toggle c'"] h
    by (auto simp add: server_downloadSegment_ack_def device_send_def)
  show False
  proof (cases "byteAt d 0 AND 0x10 \<noteq> push_bit 4 (toggle client)")
    case True
    with a have "abortFrame client TOGGLE_BIT = abortFrame t BAD_LENGTH"
      by (simp add: server_downloadSegment_cases abort_result)
    then show False
      using not_BAD_LENGTH [of TOGGLE_BIT client t] by blast
  next
    case False
    note tg = False
    show False
    proof (cases "byteAt d 0 AND 1 \<noteq> 0")
      case False
      with a tg ack [of ?c dev] show False
        by (simp add: server_downloadSegment_cases Let_def)
    next
      case True
      show False
      proof (cases ?o)
        case Commit
        with a tg True
          ack [of "resolve None ?c"
                  "dev\<lparr> eds := setRaw (eds dev) (index ?c) (subIndex ?c) (received client d) \<rparr>"]
        show False
          by (simp add: server_downloadSegment_cases Let_def)
      next
        case (Refuse code)
        with a tg True have "abortFrame ?c code = abortFrame t BAD_LENGTH"
          by (simp add: server_downloadSegment_cases Let_def abort_result)
        moreover from Refuse
        have "code \<in> {OBJECT_UNDEFINED, BAD_SUB_INDEX, READ_ONLY_CODE, VALUE_HIGH, VALUE_LOW}"
          by (rule downloadRefuse_codes)
        ultimately show False
          using not_BAD_LENGTH [of code ?c t] by blast
      next
        case Throw
        with a tg True show False
          by (simp add: server_downloadSegment_cases Let_def throw_def)
      qed
    qed
  qed
qed

section \<open>The server: the expedited reply to an upload initiate\<close>

lemma server_uploadInitiate_expedited:
  assumes "findEntry (eds dev) (Some (of_nat (readUInt16LE d 1))) (Some (of_nat (byteAt d 3)))
             = Inr entry"
    and "accessType entry \<noteq> WRITE_ONLY" and "sizeE entry \<le> 4"
  shows "\<exists>rest. sent (snd (server_uploadInitiate client dev d))
           = sent dev @
             [(cobId client,
               (if sizeE entry < 4
                then of_nat (push_bit 5 2 OR push_bit 2 (4 - sizeE entry) OR 0x2)
                       OR of_nat (push_bit 2 (4 - sizeE entry) OR 0x1)
                else of_nat (push_bit 5 2 OR push_bit 2 (4 - sizeE entry) OR 0x2))
               # rest)]"
  using assms
  by (simp add: server_uploadInitiate_def Let_def header_frame header_frame_Suc copy_Cons_4
        device_send_def)

section \<open>The client: the frames of upload and download\<close>

lemma startDownload_sent:
  "sent (snd (startDownload rx tx idx sub tmo dat trs dev))
     = sent dev @
       [(tx, if length dat > 4 then
               writeUInt32LE (length dat) 4
                 [of_nat (push_bit 5 1 OR 0x1), of_nat (unat idx), of_nat (unat idx div 256),
                  of_nat (case sub of None \<Rightarrow> 0 | Some s \<Rightarrow> unat s), 0, 0, 0, 0]
             else
               of_nat (push_bit 5 1 OR (push_bit 2 (4 - length dat) OR 0x3))
               # copy dat [of_nat (unat idx), of_nat (unat idx div 256),
                           of_nat (case sub of None \<Rightarrow> 0 | Some s \<Rightarrow> unat s), 0, 0, 0, 0]
                   3 0 (length dat))]"
  by (simp add: startDownload_def Let_def device_send_def alloc_8 writeUInt8_def
        writeUInt16LE_def subIndexNum_def new_Transfer_def copy_Cons_4)

lemma findServer_derived:
  assumes "srv serverId = None" and "srv 0 = Some server0"
  shows "findServer srv serverId
           = Inr (srv(serverId \<mapsto>
                    \<lparr> cobIdTx = deriveCobId (cobIdTx server0) serverId,
                      cobIdRx = deriveCobId (cobIdRx server0) serverId,
                      serverQueue = new_Queue \<rparr>),
                  \<lparr> cobIdTx = deriveCobId (cobIdTx server0) serverId,
                    cobIdRx = deriveCobId (cobIdRx server0) serverId,
                    serverQueue = new_Queue \<rparr>)"
  using assms by (simp add: findServer_def Let_def)

lemma findServer_error:
  "(\<exists>k. findServer srv serverId = Inl (ServerNotMapped k))
     = (srv serverId = None \<and> srv 0 = None)"
  by (auto simp add: findServer_def Let_def split: option.splits)

lemma findServer_Inl:
  "findServer srv serverId = Inl e \<Longrightarrow> e = ServerNotMapped serverId"
  by (auto simp add: findServer_def Let_def split: option.splits)

lemma enqueue_servers:
  "servers (fst (enqueue serverId server thunk cl dev)) serverId
     = Some (server\<lparr> serverQueue := fst (push thunk (serverQueue server)) \<rparr>)"
  by (simp add: enqueue_def Let_def split: option.splits)

lemma push_new_Queue: "push th new_Queue = (\<lparr> queue = [], pending = True \<rparr>, Some th)"
  by (simp add: push_def pop_def new_Queue_def)

lemma upload_exn:
  "snd (snd (upload cl dev serverId idx sub tmo))
     = (case findServer (servers cl) serverId of
          Inl e \<Rightarrow> Some e
        | Inr found \<Rightarrow> (case idx of None \<Rightarrow> Some MustProvideIndex | Some i \<Rightarrow> None))"
  by (simp add: upload_def Let_def split: sum.splits option.splits)

lemma download_exn:
  "snd (snd (download ttr cl dev serverId dat idx sub tmo dtype))
     = (case findServer (servers cl) serverId of
          Inl e \<Rightarrow> Some e
        | Inr found \<Rightarrow>
            (case idx of
               None \<Rightarrow> Some MustProvideIndex
             | Some i \<Rightarrow>
                 (case dat of
                    Inl buf \<Rightarrow> None
                  | Inr v \<Rightarrow>
                      (case dtype of
                         None \<Rightarrow> Some MustProvideDataType
                       | Some ty \<Rightarrow>
                           (case ttr v ty of
                              None \<Rightarrow> Some (FailedToConvert ty)
                            | Some buf \<Rightarrow> None)))))"
  by (simp add: download_def Let_def split: sum.splits option.splits)

lemma upload_servers:
  assumes "findServer (servers cl) serverId = Inr (srv, server)"
  shows "servers (fst (upload cl dev serverId idx sub tmo)) serverId
           = (case idx of
                None \<Rightarrow> srv serverId
              | Some i \<Rightarrow>
                  Some (server\<lparr> serverQueue :=
                     fst (push (UploadThunk (cobIdRx server) (cobIdTx server) i sub tmo)
                            (serverQueue server)) \<rparr>))"
  using assms by (simp add: upload_def Let_def enqueue_servers split: option.splits)

lemma download_servers:
  assumes "findServer (servers cl) serverId = Inr (srv, server)"
  shows "\<exists>q. servers (fst (download ttr cl dev serverId dat idx sub tmo dtype)) serverId
           = (if snd (snd (download ttr cl dev serverId dat idx sub tmo dtype)) = None
              then Some (server\<lparr> serverQueue := q \<rparr>) else srv serverId)"
  using assms
  by (auto simp add: download_def Let_def enqueue_servers split: option.splits sum.splits)

section \<open>The queue: invariant of a run\<close>

lemma qrun_snoc: "qrun (es @ [e]) = qstep e (qrun es)"
  by (simp add: qrun_def)

lemma pushed_append: "pushed (es @ fs) = pushed es @ pushed fs"
  by (induction es rule: pushed.induct) simp_all

lemma qinv_init: "qinv [] qinit"
  by (simp add: qinv_def qinit_def new_Queue_def)

lemma qinv_Push:
  assumes "qinv xs s"
  shows "qinv (xs @ [x]) (qstep (Push x) s)"
proof (cases "running s")
  case None
  with assms have "queue (qstate s) = []" "\<not> pending (qstate s)"
    by (simp_all add: qinv_def)
  with assms None show ?thesis
    by (simp add: qinv_def push_def pop_def lifecycle_def)
next
  case (Some r)
  with assms have "pending (qstate s)"
    by (simp add: qinv_def)
  with assms Some show ?thesis
    by (simp add: qinv_def push_def pop_def)
qed

lemma qinv_Settle:
  assumes "qinv xs s"
  shows "qinv xs (qstep Settle s)"
proof (cases "running s")
  case None
  with assms show ?thesis by simp
next
  case (Some r)
  obtain t b where r: "r = (t, b)" by (cases r)
  with assms Some show ?thesis
    by (cases b) (simp_all add: qinv_def)
qed

lemma qinv_React:
  assumes "qinv xs s"
  shows "qinv xs (qstep React s)"
proof (cases "running s")
  case None
  with assms show ?thesis by simp
next
  case (Some r)
  obtain t b where r: "r = (t, b)" by (cases r)
  show ?thesis
  proof (cases b)
    case False
    with assms Some r show ?thesis by simp
  next
    case True
    show ?thesis
    proof (cases "queue (qstate s)")
      case Nil
      with assms Some r True show ?thesis
        by (simp add: qinv_def settled_def pop_def)
    next
      case (Cons u us)
      with assms Some r True show ?thesis
        by (simp add: qinv_def settled_def pop_def lifecycle_def)
    qed
  qed
qed

lemma qinv_qrun: "qinv (pushed es) (qrun es)"
proof (induction es rule: rev_induct)
  case Nil
  show ?case by (simp add: qrun_def qinv_init)
next
  case (snoc e es)
  show ?case
  proof (cases e)
    case (Push x)
    with snoc show ?thesis
      by (simp add: qrun_snoc pushed_append qinv_Push del: qstep.simps)
  next
    case Settle
    with snoc show ?thesis
      by (simp add: qrun_snoc pushed_append qinv_Settle del: qstep.simps)
  next
    case React
    with snoc show ?thesis
      by (simp add: qrun_snoc pushed_append qinv_React del: qstep.simps)
  qed
qed

lemma count_Started_lifecycles:
  "length (filter is_Started (concat (map lifecycle xs))) = length xs"
  by (induction xs) (simp_all add: lifecycle_def)

lemma count_Settled_lifecycles:
  "length (filter is_Settled (concat (map lifecycle xs))) = length xs"
  by (induction xs) (simp_all add: lifecycle_def)

lemma remaining_counts:
  "filter is_Started (remaining r) = [] \<and> length (filter is_Settled (remaining r)) \<le> 1"
  by (cases r rule: remaining.cases) simp_all

text \<open>
  Two uploads submitted back to back: the second starts when the first is reported.
\<close>

lemma queue_run_example:
  "qlog (qrun [Push (1::nat), Push 2, Settle, React, Settle, React])
     = [Started 1, Settled 1, Reported 1, Started 2, Settled 2, Reported 2]"
  by (simp add: qrun_def qinit_def new_Queue_def push_def pop_def settled_def)

section \<open>The server: the size declared by a segmented download\<close>

text \<open>
  C1, as amended, for frames of 8 bytes. The server never reads the size that a
  segmented download initiate declares in bytes 4..7: two initiate frames that agree on
  bytes 0..3 have the same effect, and the size kept in the context (set to 0) plays no
  part in the handling of a segment. Each segment with the right toggle bit appends its
  payload to the buffer of the context. On the last segment the bytes received, however
  many they are, go to \<open>rawToType\<close> with the data type of the entry, once the entry
  is found and may be written. If \<open>rawToType\<close> yields a value within the limits of
  the entry, the server commits exactly the bytes received, resolves the transfer and
  answers with an acknowledgement, not an abort. If \<open>rawToType\<close> throws, the
  exception leaves the handler: nothing is committed, nothing is sent, not even an
  abort, and the context keeps the bytes received and is otherwise as it was. No
  download handler ever sends an abort frame with \<open>BAD_LENGTH\<close>.
\<close>

theorem server_download_ignores_size:
  assumes "length d = 8"
  shows
  "(byteAt d 0 AND 0x02 = 0 \<and> take 4 d = take 4 d' \<longrightarrow>
      server_downloadInitiate rtt client dev d = server_downloadInitiate rtt client dev d'
      \<and> sizeT (fst (server_downloadInitiate rtt client dev d)) = 0)
   \<and> server_downloadSegment rtt (client\<lparr> sizeT := n \<rparr>) dev d
       = ((fst (server_downloadSegment rtt client dev d))\<lparr> sizeT := n \<rparr>,
          snd (server_downloadSegment rtt client dev d))
   \<and> (byteAt d 0 AND 0x10 = push_bit 4 (toggle client) \<longrightarrow>
        data (fst (server_downloadSegment rtt client dev d)) = data client @ segmentData d
        \<and> length (segmentData d) = segmentCount d)
   \<and> (byteAt d 0 AND 0x10 = push_bit 4 (toggle client) \<and> byteAt d 0 AND 1 \<noteq> 0
        \<and> downloadAllowed rtt (eds dev) (index client) (subIndex client)
              (data client @ segmentData d) \<longrightarrow>
        eds (snd (server_downloadSegment rtt client dev d))
          = setRaw (eds dev) (index client) (subIndex client) (data client @ segmentData d)
        \<and> \<not> active (fst (server_downloadSegment rtt client dev d))
        \<and> faults (snd (server_downloadSegment rtt client dev d)) = faults dev
        \<and> (\<exists>fr. sent (snd (server_downloadSegment rtt client dev d))
                    = sent dev @ [(cobId client, fr)]
                  \<and> byteAt fr 0 \<noteq> 0x80))
   \<and> (byteAt d 0 AND 0x10 = push_bit 4 (toggle client) \<and> byteAt d 0 AND 1 \<noteq> 0
        \<and> downloadThrows rtt (eds dev) (index client) (subIndex client)
              (data client @ segmentData d) \<longrightarrow>
        server_downloadSegment rtt client dev d
          = (client\<lparr> data := data client @ segmentData d \<rparr>,
             dev\<lparr> faults := faults dev @ [RawToTypeThrew] \<rparr>))
   \<and> (\<forall>x t. sent (snd (server_downloadInitiate rtt client dev d))
               \<noteq> sent dev @ [(x, abortFrame t BAD_LENGTH)])
   \<and> (\<forall>x t. sent (snd (server_downloadSegment rtt client dev d))
               \<noteq> sent dev @ [(x, abortFrame t BAD_LENGTH)])"
proof (intro conjI impI allI)
  assume a: "byteAt d 0 AND 0x02 = 0 \<and> take 4 d = take 4 d'"
  then have h: "byteAt d 0 = byteAt d' 0" "readUInt16LE d 1 = readUInt16LE d' 1"
    "byteAt d 3 = byteAt d' 3"
    using head_bytes [of d d'] by simp_all
  from a h have a': "byteAt d' 0 AND 0x02 = 0" by simp
  from a have a0: "byteAt d 0 AND 0x02 = 0" by simp
  show "server_downloadInitiate rtt client dev d = server_downloadInitiate rtt client dev d'"
    unfolding server_downloadInitiate_segmented [OF a0] server_downloadInitiate_segmented [OF a']
    by (simp only: h)
  show "sizeT (fst (server_downloadInitiate rtt client dev d)) = 0"
    unfolding server_downloadInitiate_segmented [OF a0] by (simp add: Let_def start_def)
next
  show "server_downloadSegment rtt (client\<lparr> sizeT := n \<rparr>) dev d
       = ((fst (server_downloadSegment rtt client dev d))\<lparr> sizeT := n \<rparr>,
          snd (server_downloadSegment rtt client dev d))"
    by (rule server_downloadSegment_sizeT)
next
  assume a: "byteAt d 0 AND 0x10 = push_bit 4 (toggle client)"
  have r: "received client d = data client @ segmentData d"
    using assms by (rule received_append(1))
  from a show "data (fst (server_downloadSegment rtt client dev d))
      = data client @ segmentData d"
    unfolding r [symmetric]
    by (simp add: server_downloadSegment_cases Let_def abort_result reject_def resolve_def
          refresh_def server_downloadSegment_ack_def split: outcome.splits)
  show "length (segmentData d) = segmentCount d"
    using assms by (rule received_append(2))
next
  assume a: "byteAt d 0 AND 0x10 = push_bit 4 (toggle client) \<and> byteAt d 0 AND 1 \<noteq> 0
        \<and> downloadAllowed rtt (eds dev) (index client) (subIndex client)
              (data client @ segmentData d)"
  have r: "received client d = data client @ segmentData d"
    using assms by (rule received_append(1))
  from a have o: "downloadOutcome rtt (eds dev) (index client) (subIndex client)
      (received client d) = Commit"
    unfolding r by (simp add: downloadAllowed_outcome)
  then have nt: "\<not> downloadThrows rtt (eds dev) (index client) (subIndex client)
      (received client d)"
    by (simp add: downloadThrows_outcome)
  from a show "eds (snd (server_downloadSegment rtt client dev d))
          = setRaw (eds dev) (index client) (subIndex client) (data client @ segmentData d)"
    unfolding r [symmetric] server_downloadSegment_eds by simp
  from a o show "\<not> active (fst (server_downloadSegment rtt client dev d))"
    by (simp add: server_downloadSegment_cases Let_def resolve_def refresh_def
          server_downloadSegment_ack_def)
  from nt show "faults (snd (server_downloadSegment rtt client dev d)) = faults dev"
    by (simp add: server_downloadSegment_faults)
  from a nt server_downloadSegment_sent [of d client rtt dev]
  show "\<exists>fr. sent (snd (server_downloadSegment rtt client dev d))
                    = sent dev @ [(cobId client, fr)]
                  \<and> byteAt fr 0 \<noteq> 0x80"
    unfolding r [symmetric] by auto
next
  assume a: "byteAt d 0 AND 0x10 = push_bit 4 (toggle client) \<and> byteAt d 0 AND 1 \<noteq> 0
        \<and> downloadThrows rtt (eds dev) (index client) (subIndex client)
              (data client @ segmentData d)"
  have r: "received client d = data client @ segmentData d"
    using assms by (rule received_append(1))
  from a have o: "downloadOutcome rtt (eds dev) (index client) (subIndex client)
      (received client d) = Throw"
    unfolding r by (simp add: downloadThrows_outcome)
  from a o show "server_downloadSegment rtt client dev d
          = (client\<lparr> data := data client @ segmentData d \<rparr>,
             dev\<lparr> faults := faults dev @ [RawToTypeThrew] \<rparr>)"
    unfolding r [symmetric]
    by (simp add: server_downloadSegment_cases Let_def throw_def)
next
  fix x t
  show "sent (snd (server_downloadInitiate rtt client dev d))
               \<noteq> sent dev @ [(x, abortFrame t BAD_LENGTH)]"
    by (rule server_downloadInitiate_no_BAD_LENGTH)
  show "sent (snd (server_downloadSegment rtt client dev d))
               \<noteq> sent dev @ [(x, abortFrame t BAD_LENGTH)]"
    by (rule server_downloadSegment_no_BAD_LENGTH)
qed

text \<open>
  On the concrete device, with the last segment \<open>09 61 62 63 00 00 00 00\<close> (toggle 0,
  three bytes). When the context has an open segmented download to the string at 0x2003,
  the segment commits "abc". When the download is to the UNSIGNED32 at 0x2001,
  \<open>rawToType\<close> throws on the three bytes: the entry keeps its four bytes, no frame
  is sent and the exception is the only trace.
\<close>

theorem server_download_ignores_size_witness:
  "eds (snd (server_downloadSegment rtt1 context3 device1 [0x09, 0x61, 0x62, 0x63, 0, 0, 0, 0]))
     = setRaw eds1 (Some 0x2003) (Some 0) [0x61, 0x62, 0x63]
   \<and> \<not> active (fst (server_downloadSegment rtt1 context3 device1
                        [0x09, 0x61, 0x62, 0x63, 0, 0, 0, 0]))
   \<and> server_downloadSegment rtt1 (context3\<lparr> index := Some 0x2001 \<rparr>) device1
         [0x09, 0x61, 0x62, 0x63, 0, 0, 0, 0]
       = (context3\<lparr> index := Some 0x2001, data := [0x61, 0x62, 0x63] \<rparr>,
          device1\<lparr> faults := [RawToTypeThrew] \<rparr>)"
proof -
  let ?d = "[0x09, 0x61, 0x62, 0x63, 0, 0, 0, 0] :: byte list"
  let ?c = "context3\<lparr> index := Some 0x2001 \<rparr>"
  have c: "toggle context3 = 0" "index context3 = Some 0x2003" "subIndex context3 = Some 0"
    "data context3 = []" "eds device1 = eds1" "faults device1 = []"
    by (simp_all add: context3_def context1_def start_def new_Transfer_def alloc_0 device1_def)
  have c': "toggle ?c = 0" "index ?c = Some 0x2001" "subIndex ?c = Some 0" "data ?c = []"
    by (simp_all add: c)
  have b: "byteAt ?d 0 = 9" "length ?d = 8"
    by (simp_all add: byteAt_def)
  have s: "segmentData ?d = [0x61, 0x62, 0x63]"
    by (simp add: segmentData_def segmentCount_def slice_def b)
  have f: "findEntry eds1 (Some 0x2003) (Some 0) = Inr (top (plainEntry READ_WRITE 9 []))"
    by (simp add: findEntry_def getEntry_def eds1_def plainEntry_def)
  have al: "downloadAllowed rtt1 eds1 (Some 0x2003) (Some 0) r" for r
    by (simp add: downloadAllowed_def f plainEntry_def rtt1_def)
  have f': "findEntry eds1 (Some 0x2001) (Some 0)
      = Inr (top (plainEntry READ_WRITE 7 [0xDE, 0xAD, 0xBE, 0xEF]))"
    by (simp add: findEntry_def getEntry_def eds1_def plainEntry_def)
  have th: "downloadThrows rtt1 eds1 (Some 0x2001) (Some 0) [0x61, 0x62, 0x63]"
    by (simp add: downloadThrows_def f' plainEntry_def rtt1_def)
  have h: "byteAt ?d 0 AND 0x10 = push_bit 4 (toggle context3) \<and> byteAt ?d 0 AND 1 \<noteq> 0
      \<and> downloadAllowed rtt1 (eds device1) (index context3) (subIndex context3)
           (data context3 @ segmentData ?d)"
    unfolding c b by (simp add: al)
  have h': "byteAt ?d 0 AND 0x10 = push_bit 4 (toggle ?c) \<and> byteAt ?d 0 AND 1 \<noteq> 0
      \<and> downloadThrows rtt1 (eds device1) (index ?c) (subIndex ?c) (data ?c @ segmentData ?d)"
    unfolding c' c b s using th by simp
  from server_download_ignores_size
    [OF b(2), where rtt = rtt1 and client = context3 and dev = device1] h
  have "eds (snd (server_downloadSegment rtt1 context3 device1 ?d))
          = setRaw (eds device1) (index context3) (subIndex context3)
              (data context3 @ segmentData ?d)
        \<and> \<not> active (fst (server_downloadSegment rtt1 context3 device1 ?d))"
    by blast
  then have one: "eds (snd (server_downloadSegment rtt1 context3 device1 ?d))
          = setRaw eds1 (Some 0x2003) (Some 0) [0x61, 0x62, 0x63]
        \<and> \<not> active (fst (server_downloadSegment rtt1 context3 device1 ?d))"
    unfolding c s by simp
  from server_download_ignores_size
    [OF b(2), where rtt = rtt1 and client = ?c and dev = device1] h'
  have "server_downloadSegment rtt1 ?c device1 ?d
          = (?c\<lparr> data := data ?c @ segmentData ?d \<rparr>,
             device1\<lparr> faults := faults device1 @ [RawToTypeThrew] \<rparr>)"
    by blast
  then have two: "server_downloadSegment rtt1 ?c device1 ?d
          = (context3\<lparr> index := Some 0x2001, data := [0x61, 0x62, 0x63] \<rparr>,
             device1\<lparr> faults := [RawToTypeThrew] \<rparr>)"
    unfolding c' c s by simp
  from one two show ?thesis
    by (intro conjI) (simp_all only: simp_thms)
qed

text \<open>
  The claim, as stated, fails: the client opens a segmented download to 0x2003 that
  declares 10 bytes (\<open>21 03 20 00 0A 00 00 00\<close>) and then sends one last segment of
  3 bytes. The server acknowledges both frames (\<open>60 03 20 00 ...\<close>, \<open>20 00 ...\<close>), sends
  no abort, and the entry holds the 3 bytes: the transfer completes with a sum of
  payload lengths that is not the declared size.
\<close>

theorem server_download_size_counterexample:
  "readUInt32LE [0x21, 0x03, 0x20, 0x00, 0x0A, 0, 0, 0] 4 = 10
   \<and> segmentCount [0x09, 0x61, 0x62, 0x63, 0, 0, 0, 0] = 3
   \<and> server_onMessage rtt1 (Map.empty(0x60B \<mapsto> context1)) device1
         (0x60B, [0x21, 0x03, 0x20, 0x00, 0x0A, 0, 0, 0])
       = (Map.empty(0x60B \<mapsto> context3),
          device1\<lparr> sent := [(0x58B, [0x60, 0x03, 0x20, 0x00, 0, 0, 0, 0])] \<rparr>)
   \<and> server_onMessage rtt1 (Map.empty(0x60B \<mapsto> context3))
         (device1\<lparr> sent := [(0x58B, [0x60, 0x03, 0x20, 0x00, 0, 0, 0, 0])] \<rparr>)
         (0x60B, [0x09, 0x61, 0x62, 0x63, 0, 0, 0, 0])
       = (Map.empty(0x60B \<mapsto>
            context3\<lparr> data := [0x61, 0x62, 0x63], active := False, toggle := 1 \<rparr>),
          \<lparr> eds = setRaw eds1 (Some 0x2003) (Some 0) [0x61, 0x62, 0x63],
            sent = [(0x58B, [0x60, 0x03, 0x20, 0x00, 0, 0, 0, 0]),
                    (0x58B, [0x20, 0, 0, 0, 0, 0, 0, 0])],
            faults = [] \<rparr>)
   \<and> map_option (\<lambda>obj. raw (top obj))
         (setRaw eds1 (Some 0x2003) (Some 0) [0x61, 0x62, 0x63] 0x2003)
       = Some [0x61, 0x62, 0x63]"
proof -
  let ?i = "[0x21, 0x03, 0x20, 0x00, 0x0A, 0, 0, 0] :: byte list"
  let ?d = "[0x09, 0x61, 0x62, 0x63, 0, 0, 0, 0] :: byte list"
  have bi: "byteAt ?i 0 = 0x21" "readUInt16LE ?i (Suc 0) = 0x2003" "byteAt ?i 3 = 0"
    "readUInt32LE ?i 4 = 10"
    by (simp_all add: byteAt_def readUInt16LE_def readUInt32LE_def)
  have bd: "byteAt ?d 0 = 9" "segmentCount ?d = 3" "segmentData ?d = [0x61, 0x62, 0x63]"
    by (simp_all add: byteAt_def segmentCount_def segmentData_def slice_def)
  have c1: "cobId context1 = 0x58B"
    by (simp add: context1_def new_Transfer_def)
  have c3: "toggle context3 = 0" "index context3 = Some 0x2003" "subIndex context3 = Some 0"
    "data context3 = []" "cobId context3 = 0x58B" "timer context3 = False"
    by (simp_all add: context3_def context1_def start_def new_Transfer_def alloc_0)
  have f: "findEntry eds1 (Some 0x2003) (Some 0) = Inr (top (plainEntry READ_WRITE 9 []))"
    by (simp add: findEntry_def getEntry_def eds1_def plainEntry_def)
  have al: "downloadOutcome rtt1 eds1 (Some 0x2003) (Some 0) r = Commit" for r
    by (simp add: downloadOutcome_def f plainEntry_def rtt1_def)
  have r: "received context3 ?d = [0x61, 0x62, 0x63]"
    by (simp add: received_def bd c3 concat_total_def)
  have step1: "server_onMessage rtt1 (Map.empty(0x60B \<mapsto> context1)) device1 (0x60B, ?i)
       = (Map.empty(0x60B \<mapsto> context3),
          device1\<lparr> sent := [(0x58B, [0x60, 0x03, 0x20, 0x00, 0, 0, 0, 0])] \<rparr>)"
    by (simp add: server_onMessage_def bi server_downloadInitiate_cases Let_def context3_def
          downloadInitiateAck_def header_frame_Suc indexNum_def subIndexNum_def c1
          device_send_def device1_def)
  have step2: "server_onMessage rtt1 (Map.empty(0x60B \<mapsto> context3))
         (device1\<lparr> sent := [(0x58B, [0x60, 0x03, 0x20, 0x00, 0, 0, 0, 0])] \<rparr>) (0x60B, ?d)
       = (Map.empty(0x60B \<mapsto>
            context3\<lparr> data := [0x61, 0x62, 0x63], active := False, toggle := 1 \<rparr>),
          \<lparr> eds = setRaw eds1 (Some 0x2003) (Some 0) [0x61, 0x62, 0x63],
            sent = [(0x58B, [0x60, 0x03, 0x20, 0x00, 0, 0, 0, 0]),
                    (0x58B, [0x20, 0, 0, 0, 0, 0, 0, 0])],
            faults = [] \<rparr>)"
    using r
    by (simp add: server_onMessage_def bd server_downloadSegment_cases Let_def al
          server_downloadSegment_ack_def resolve_def refresh_def header_only
          device_send_def device1_def context3_def context1_def start_def new_Transfer_def
          alloc_0)
  have e: "map_option (\<lambda>obj. raw (top obj))
         (setRaw eds1 (Some 0x2003) (Some 0) [0x61, 0x62, 0x63] 0x2003)
       = Some [0x61, 0x62, 0x63]"
    by (simp add: setRaw_def eds1_def plainEntry_def)
  from bi(4) bd(2) step1 step2 e show ?thesis
    by simp
qed

section \<open>Abort codes: the length codes\<close>

text \<open>
  C2. The claim wants \<open>DATA_SHORT = 0x06070013\<close>, apart from \<open>DATA_LONG\<close>. The
  table gives both keys the value \<open>0x06070012\<close>, and \<open>codeToString\<close> therefore
  answers the "too high" message for \<open>DATA_SHORT\<close>: the label of the "too short"
  message is never reached.
\<close>

theorem DATA_SHORT_is_DATA_LONG:
  "DATA_SHORT = 0x06070012 \<and> DATA_SHORT = DATA_LONG \<and> DATA_SHORT \<noteq> 0x06070013
   \<and> codeToString DATA_SHORT
       = ''Data type does not match: length of service parameter too high''"
  by (simp add: codeToString_def SdoCode_defs)

section \<open>The client: a segmented upload of undeclared size\<close>

text \<open>
  C3. The claim: when the initiate reply of the server declares no size, the last
  segment resolves the upload with the bytes received. In the source the size of a
  transfer starts at 0 and stays 0 when the reply declares none, and the last segment
  compares it with the bytes received all the same. The upload of 0x2000 is answered by
  \<open>40 00 20 00 00 00 00 00\<close> (segmented, no size), for which the client asks for the
  first segment (\<open>60 00 ...\<close>); the server sends the last segment \<open>09 61 62 63 ...\<close>
  (three bytes, toggle 0), and the client aborts with \<open>BAD_LENGTH\<close>: it sends
  \<open>80 00 20 00 10 00 07 06\<close> and rejects the promise with \<open>0x06070010\<close>.
\<close>

theorem client_upload_without_size_aborts:
  "client_onMessage
       (fst (client_onMessage (Map.empty(0x58B \<mapsto> uploading)) device1
               (0x58B, [0x40, 0x00, 0x20, 0x00, 0, 0, 0, 0])))
       (snd (client_onMessage (Map.empty(0x58B \<mapsto> uploading)) device1
               (0x58B, [0x40, 0x00, 0x20, 0x00, 0, 0, 0, 0])))
       (0x58B, [0x09, 0x61, 0x62, 0x63, 0, 0, 0, 0])
     = (Map.empty(0x58B \<mapsto>
          uploading\<lparr> active := False, timer := False, future := Rejected 0x06070010 \<rparr>),
        device1\<lparr> sent := [(0x60B, [0x60, 0, 0, 0, 0, 0, 0, 0]),
                            (0x60B, [0x80, 0x00, 0x20, 0x00, 0x10, 0x00, 0x07, 0x06])] \<rparr>)
   \<and> BAD_LENGTH = 0x06070010"
proof -
  have u: "active uploading" "toggle uploading = 0" "sizeT uploading = 0"
    "data uploading = []" "future uploading = Pending" "cobId uploading = 0x60B"
    "indexNum uploading = 0x2000" "subIndexNum uploading = 0"
    by (simp_all add: uploading_def start_def new_Transfer_def indexNum_def subIndexNum_def)
  have first: "client_onMessage (Map.empty(0x58B \<mapsto> uploading)) device1
                 (0x58B, [0x40, 0x00, 0x20, 0x00, 0, 0, 0, 0])
      = (Map.empty(0x58B \<mapsto> uploading),
         device1\<lparr> sent := [(0x60B, [0x60, 0, 0, 0, 0, 0, 0, 0])] \<rparr>)"
    by (simp add: client_onMessage_def client_uploadInitiate_def byteAt_def refresh_def
          send_def device_send_def header_only u device1_def)
  have second: "client_onMessage (Map.empty(0x58B \<mapsto> uploading))
                 (device1\<lparr> sent := [(0x60B, [0x60, 0, 0, 0, 0, 0, 0, 0])] \<rparr>)
                 (0x58B, [0x09, 0x61, 0x62, 0x63, 0, 0, 0, 0])
      = (Map.empty(0x58B \<mapsto>
           uploading\<lparr> active := False, timer := False, future := Rejected 0x06070010 \<rparr>),
         device1\<lparr> sent := [(0x60B, [0x60, 0, 0, 0, 0, 0, 0, 0]),
                             (0x60B, [0x80, 0x00, 0x20, 0x00, 0x10, 0x00, 0x07, 0x06])] \<rparr>)"
    by (simp add: client_onMessage_def client_uploadSegment_def byteAt_def abort_result
          abortFrame_bytes reject_def u BAD_LENGTH_def device1_def)
  show ?thesis
    unfolding first fst_conv snd_conv second by (simp add: BAD_LENGTH_def)
qed

section \<open>The client: an abort frame from the server\<close>

text \<open>
  C4. The claim: on an abort frame from the server the promise is rejected with the code
  of the frame and the client sends nothing. The client of the source calls
  \<open>transfer.abort\<close> there, not \<open>transfer.reject\<close>: the upload of 0x2000, answered by
  the server with the abort \<open>80 00 20 00 02 00 01 06\<close> (READ_ONLY), is rejected with
  that code, and the client sends the same abort frame back to the server on 0x60B. The
  server of the same module, given an abort frame, calls \<open>reject\<close> and sends nothing.
\<close>

theorem client_answers_abort_with_abort:
  "client_onMessage (Map.empty(0x58B \<mapsto> uploading)) device1
       (0x58B, [0x80, 0x00, 0x20, 0x00, 0x02, 0x00, 0x01, 0x06])
     = (Map.empty(0x58B \<mapsto>
          uploading\<lparr> active := False, timer := False, future := Rejected 0x06010002 \<rparr>),
        device1\<lparr> sent := [(0x60B, [0x80, 0x00, 0x20, 0x00, 0x02, 0x00, 0x01, 0x06])] \<rparr>)
   \<and> sent (snd (server_onMessage rtt1 (Map.empty(0x60B \<mapsto> context1)) device1
                  (0x60B, [0x80, 0x00, 0x20, 0x00, 0x02, 0x00, 0x01, 0x06]))) = []"
  by (simp add: client_onMessage_def server_onMessage_def byteAt_def readUInt32LE_def
        abort_result abortFrame_bytes reject_def uploading_def start_def new_Transfer_def
        indexNum_def subIndexNum_def device1_def)

section \<open>The server: the reply to an upload initiate of a short entry\<close>

text \<open>
  C5, as amended. The reply to an upload initiate (a frame of 8 bytes) of an entry that
  is found, is not write-only and has a size from 1 to 4 is one frame to the client,
  with command specifier 2 and the expedited flag (bit 1) set. For a size of 1, 2 or 3
  bytes the command byte carries \<open>n = 4 - size\<close> in bits 3..2 and the size flag (bit 0) is set;
  for a size of exactly 4 bytes the command byte is \<open>0x42\<close>: \<open>n = 0\<close> and the size
  flag is clear.
\<close>

theorem server_uploadInitiate_expedited_header:
  assumes "findEntry (eds dev) (Some (of_nat (readUInt16LE d 1))) (Some (of_nat (byteAt d 3)))
             = Inr entry"
    and "accessType entry \<noteq> WRITE_ONLY"
    and "1 \<le> sizeE entry" and "sizeE entry \<le> 4"
    and "length d = 8"
  shows "\<exists>h rest.
           sent (snd (server_uploadInitiate client dev d)) = sent dev @ [(cobId client, h # rest)]
           \<and> drop_bit 5 (unat h) = 2
           \<and> unat h AND 2 = 2
           \<and> (if sizeE entry < 4
                then drop_bit 2 (unat h) AND 3 = 4 - sizeE entry \<and> unat h AND 1 = 1
                else h = 0x42 \<and> drop_bit 2 (unat h) AND 3 = 0 \<and> unat h AND 1 = 0)"
proof -
  from server_uploadInitiate_expedited [OF assms(1,2,4), of client]
  obtain rest where s: "sent (snd (server_uploadInitiate client dev d))
      = sent dev @
        [(cobId client,
          (if sizeE entry < 4
           then of_nat (push_bit 5 2 OR push_bit 2 (4 - sizeE entry) OR 0x2)
                  OR of_nat (push_bit 2 (4 - sizeE entry) OR 0x1)
           else of_nat (push_bit 5 2 OR push_bit 2 (4 - sizeE entry) OR 0x2))
          # rest)]"
    by blast
  from assms(3,4) consider "sizeE entry = 1" | "sizeE entry = 2" | "sizeE entry = 3"
    | "sizeE entry = 4"
    by linarith
  then show ?thesis
  proof cases
    case 1
    with s have "sent (snd (server_uploadInitiate client dev d))
        = sent dev @ [(cobId client, 0x4F # rest)]"
      by simp
    with 1 show ?thesis by simp
  next
    case 2
    with s have "sent (snd (server_uploadInitiate client dev d))
        = sent dev @ [(cobId client, 0x4B # rest)]"
      by simp
    with 2 show ?thesis by simp
  next
    case 3
    with s have "sent (snd (server_uploadInitiate client dev d))
        = sent dev @ [(cobId client, 0x47 # rest)]"
      by simp
    with 3 show ?thesis by simp
  next
    case 4
    with s have "sent (snd (server_uploadInitiate client dev d))
        = sent dev @ [(cobId client, 0x42 # rest)]"
      by simp
    with 4 show ?thesis by simp
  qed
qed

text \<open>
  The first scenario of the specification: the UNSIGNED8 at 0x2000 holds 0x42, the
  reply is \<open>4F 00 20 00 42 00 00 00\<close>.
\<close>

theorem server_uploadInitiate_expedited_header_witness:
  "\<exists>h rest.
     sent (snd (server_uploadInitiate context1 device1 [0x40, 0x00, 0x20, 0, 0, 0, 0, 0]))
       = [(0x58B, h # rest)]
     \<and> drop_bit 5 (unat h) = 2 \<and> unat h AND 2 = 2
     \<and> drop_bit 2 (unat h) AND 3 = 3 \<and> unat h AND 1 = 1"
proof -
  have i: "(of_nat (readUInt16LE [0x40, 0x00, 0x20, 0, 0, 0, 0, 0] 1) :: 16 word) = 0x2000"
    "(of_nat (byteAt [0x40, 0x00, 0x20, 0, 0, 0, 0, 0] 3) :: byte) = 0"
    by (simp_all add: readUInt16LE_def byteAt_def)
  have f: "findEntry (eds device1)
             (Some (of_nat (readUInt16LE [0x40, 0x00, 0x20, 0, 0, 0, 0, 0] 1)))
             (Some (of_nat (byteAt [0x40, 0x00, 0x20, 0, 0, 0, 0, 0] 3)))
           = Inr (top (plainEntry READ_WRITE 5 [0x42]))"
    unfolding i by (simp add: findEntry_def getEntry_def device1_def eds1_def plainEntry_def)
  have e: "accessType (top (plainEntry READ_WRITE 5 [0x42])) \<noteq> WRITE_ONLY"
    "1 \<le> sizeE (top (plainEntry READ_WRITE 5 [0x42]))"
    "sizeE (top (plainEntry READ_WRITE 5 [0x42])) \<le> 4"
    "sizeE (top (plainEntry READ_WRITE 5 [0x42])) = 1"
    by (simp_all add: plainEntry_def)
  have c: "cobId context1 = 0x58B" "sent device1 = []"
    by (simp_all add: context1_def new_Transfer_def device1_def)
  have l: "length [0x40, 0x00, 0x20, 0, 0, 0, 0, 0 :: byte] = 8"
    by simp
  from server_uploadInitiate_expedited_header [OF f e(1,2,3) l, of context1]
  show ?thesis
    unfolding e(4) c by simp
qed

text \<open>
  The claim, as stated, fails for a size of exactly 4 bytes: the UNSIGNED32 at 0x2001 is
  uploaded with command byte \<open>0x42\<close>, whose size flag (bit 0) is clear.
\<close>

theorem server_uploadInitiate_size4_counterexample:
  "sizeE (top (plainEntry READ_WRITE 7 [0xDE, 0xAD, 0xBE, 0xEF])) = 4
   \<and> sent (snd (server_uploadInitiate context1 device1 [0x40, 0x01, 0x20, 0, 0, 0, 0, 0]))
       = [(0x58B, [0x42, 0x01, 0x20, 0x00, 0xDE, 0xAD, 0xBE, 0xEF])]
   \<and> byteAt [0x42, 0x01, 0x20, 0x00, 0xDE, 0xAD, 0xBE, 0xEF] 0 AND 1 \<noteq> 1"
proof -
  have i: "readUInt16LE [0x40, 0x01, 0x20, 0, 0, 0, 0, 0] (Suc 0) = 0x2001"
    "byteAt [0x40, 0x01, 0x20, 0, 0, 0, 0, 0] 3 = 0"
    by (simp_all add: readUInt16LE_def byteAt_def)
  have f: "findEntry eds1 (Some 0x2001) (Some 0)
           = Inr (top (plainEntry READ_WRITE 7 [0xDE, 0xAD, 0xBE, 0xEF]))"
    by (simp add: findEntry_def getEntry_def eds1_def plainEntry_def)
  have t: "top (plainEntry READ_WRITE 7 [0xDE, 0xAD, 0xBE, 0xEF])
           = \<lparr> accessType = READ_WRITE, dataType = 7, highLimit = None, lowLimit = None,
               sizeE = 4, raw = [0xDE, 0xAD, 0xBE, 0xEF] \<rparr>"
    by (simp add: plainEntry_def)
  have "sent (snd (server_uploadInitiate context1 device1 [0x40, 0x01, 0x20, 0, 0, 0, 0, 0]))
       = [(0x58B, [0x42, 0x01, 0x20, 0x00, 0xDE, 0xAD, 0xBE, 0xEF])]"
    by (simp add: server_uploadInitiate_def Let_def i f t device1_def context1_def
          new_Transfer_def header_frame_Suc indexNum_def subIndexNum_def copy_def
          device_send_def)
  then show ?thesis
    by (simp add: plainEntry_def byteAt_def)
qed

section \<open>The client: expedited or segmented download\<close>

text \<open>
  The initiate frame of a client download of at least one byte: with more than 4 bytes
  it is the segmented initiate, command byte \<open>0x21\<close> and the length in bytes 4..7;
  with 1 to 4 bytes it is the expedited initiate, the expedited and size flags set,
  \<open>n = 4 - length\<close> in bits 3..2 and the payload in bytes 4.., zero-filled. The
  transfer is stored under the identifier of the replies, started, with the data.
\<close>

lemma startDownload_initiate_frame:
  assumes "1 \<le> length dat"
  shows "\<exists>h rest.
           sent (snd (startDownload rx tx idx sub tmo dat trs dev)) = sent dev @ [(tx, h # rest)]
           \<and> fst (startDownload rx tx idx sub tmo dat trs dev) rx
               = Some (start (new_Transfer Pending (Some idx) sub dat tmo tx))
           \<and> take 3 rest = [of_nat (unat idx), of_nat (unat idx div 256),
                             of_nat (case sub of None \<Rightarrow> 0 | Some s \<Rightarrow> unat s)]
           \<and> (if length dat > 4
                then h = 0x21
                     \<and> drop 3 rest = [of_nat (length dat), of_nat (length dat div 256),
                                       of_nat (length dat div 65536),
                                       of_nat (length dat div 16777216)]
                else unat h AND 2 = 2 \<and> unat h AND 1 = 1
                     \<and> drop_bit 5 (unat h) = 1
                     \<and> drop_bit 2 (unat h) AND 3 = 4 - length dat
                     \<and> drop 3 rest = dat @ replicate (4 - length dat) 0)"
proof -
  have t: "fst (startDownload rx tx idx sub tmo dat trs dev) rx
             = Some (start (new_Transfer Pending (Some idx) sub dat tmo tx))"
    by (simp add: startDownload_def Let_def)
  note s = startDownload_sent [of rx tx idx sub tmo dat trs dev]
  from assms consider "length dat = 1" | "length dat = 2" | "length dat = 3"
    | "length dat = 4" | "length dat > 4"
    by linarith
  then show ?thesis
  proof cases
    case 1
    then obtain a where "dat = [a]" using list_of_length(1) by blast
    with s t show ?thesis by (simp add: copy_def replicate_small)
  next
    case 2
    then obtain a b where "dat = [a, b]" using list_of_length(2) by blast
    with s t show ?thesis by (simp add: copy_def replicate_small)
  next
    case 3
    then obtain a b c where "dat = [a, b, c]" using list_of_length(3) by blast
    with s t show ?thesis by (simp add: copy_def replicate_small)
  next
    case 4
    then obtain a b c d where "dat = [a, b, c, d]" using list_of_length(4) by blast
    with s t show ?thesis by (simp add: copy_def replicate_small)
  next
    case 5
    with s t show ?thesis by (simp add: writeUInt32LE_def)
  qed
qed

text \<open>
  The third scenario of the specification: "HelloWorld" to 0x2002 goes out as
  \<open>21 02 20 00 0A 00 00 00\<close>.
\<close>

lemma startDownload_helloWorld:
  "sent (snd (startDownload 0x58B 0x60B 0x2002 (Some 0) 30 helloWorld Map.empty device1))
     = [(0x60B, [0x21, 0x02, 0x20, 0x00, 0x0A, 0x00, 0x00, 0x00])]"
proof -
  have l: "length helloWorld = 10" "1 \<le> length helloWorld"
    by (simp_all add: helloWorld_def)
  from startDownload_initiate_frame [OF l(2), of "0x58B" "0x60B" "0x2002" "Some 0" 30
      Map.empty device1]
  obtain h rest where
    s: "sent (snd (startDownload 0x58B 0x60B 0x2002 (Some 0) 30 helloWorld Map.empty device1))
          = sent device1 @ [(0x60B, h # rest)]"
    and r: "take 3 rest = [of_nat (unat (0x2002 :: 16 word)),
                           of_nat (unat (0x2002 :: 16 word) div 256),
                           of_nat (case Some (0 :: byte) of None \<Rightarrow> 0 | Some s \<Rightarrow> unat s)]"
    and c: "if length helloWorld > 4
            then h = 0x21
                 \<and> drop 3 rest = [of_nat (length helloWorld), of_nat (length helloWorld div 256),
                                   of_nat (length helloWorld div 65536),
                                   of_nat (length helloWorld div 16777216)]
            else unat h AND 2 = 2 \<and> unat h AND 1 = 1
                 \<and> drop_bit 5 (unat h) = 1
                 \<and> drop_bit 2 (unat h) AND 3 = 4 - length helloWorld
                 \<and> drop 3 rest = helloWorld @ replicate (4 - length helloWorld) 0"
    by blast
  from c have h: "h = 0x21" and d: "drop 3 rest = [0x0A, 0, 0, 0]"
    by (simp_all add: l(1))
  from r have r': "take 3 rest = [0x02, 0x20, 0x00]"
    by simp
  have "rest = take 3 rest @ drop 3 rest"
    by simp
  then have "rest = [0x02, 0x20, 0x00, 0x0A, 0, 0, 0]"
    unfolding r' d by simp
  with s h show ?thesis
    by (simp add: device1_def)
qed

text \<open>
  C6. The claim fails for a payload of 0 bytes, and only there. \<open>download\<close> of an
  empty buffer to 0x2003 takes the branch of the payloads of at most 4 bytes, where
  \<open>4 - data.length\<close> is 4 and does not fit the two bits of \<open>n\<close>: shifted by 2 it
  sets bit 4 of the command byte and leaves \<open>n = 0\<close>. The frame is
  \<open>33 03 20 00 00 00 00 00\<close>, with the expedited flag (bit 1) set, not the segmented
  initiate. The server of this module reads \<open>n = 0\<close> as a payload of four bytes,
  commits four zero bytes to the entry and acknowledges; on that reply the client
  resolves the transfer with no segment sent.
\<close>

theorem download_empty_payload_expedited:
  "snd (download (\<lambda>(v::int) ty. None) client1 device1 0x0B (Inl []) (Some 0x2003) (Some 0)
          30 None)
     = (device1\<lparr> sent := [(0x60B, [0x33, 0x03, 0x20, 0x00, 0x00, 0x00, 0x00, 0x00])] \<rparr>,
        None)
   \<and> byteAt [0x33, 0x03, 0x20, 0x00, 0x00, 0x00, 0x00, 0x00] 0 AND 0x02 = 0x02
   \<and> drop_bit 2 (byteAt [0x33, 0x03, 0x20, 0x00, 0x00, 0x00, 0x00, 0x00] 0) AND 3 = 0
   \<and> transfers
         (fst (download (\<lambda>(v::int) ty. None) client1 device1 0x0B (Inl []) (Some 0x2003)
                 (Some 0) 30 None)) 0x58B
       = Some (start (new_Transfer Pending (Some 0x2003) (Some 0) [] 30 0x60B))
   \<and> server_downloadInitiate rtt1 context1 device1
         [0x33, 0x03, 0x20, 0x00, 0x00, 0x00, 0x00, 0x00]
       = (context1\<lparr> index := Some 0x2003, subIndex := Some 0 \<rparr>,
          device1\<lparr> eds := setRaw eds1 (Some 0x2003) (Some 0) [0, 0, 0, 0],
                   sent := [(0x58B, [0x60, 0x03, 0x20, 0x00, 0, 0, 0, 0])] \<rparr>)
   \<and> map_option (\<lambda>obj. raw (top obj))
         (setRaw eds1 (Some 0x2003) (Some 0) [0, 0, 0, 0] 0x2003)
       = Some [0, 0, 0, 0]
   \<and> client_downloadInitiate (start (new_Transfer Pending (Some 0x2003) (Some 0) [] 30 0x60B))
         (device1\<lparr> sent := [(0x60B, [0x33, 0x03, 0x20, 0x00, 0x00, 0x00, 0x00, 0x00])] \<rparr>)
       = ((start (new_Transfer Pending (Some 0x2003) (Some 0) [] 30 0x60B))
            \<lparr> active := False, timer := False, future := Fulfilled None \<rparr>,
          device1\<lparr> sent := [(0x60B, [0x33, 0x03, 0x20, 0x00, 0x00, 0x00, 0x00, 0x00])] \<rparr>)"
proof -
  let ?f = "[0x33, 0x03, 0x20, 0x00, 0x00, 0x00, 0x00, 0x00] :: byte list"
  have f: "findServer (servers client1) 0x0B = Inr (servers client1, server0B)"
    by (simp add: findServer_def client1_def)
  have q: "push th (serverQueue server0B) = (\<lparr> queue = [], pending = True \<rparr>, Some th)" for th
    by (simp add: push_def pop_def server0B_def new_Queue_def)
  have s: "startDownload 0x58B 0x60B 0x2003 (Some 0) 30 [] Map.empty device1
      = (Map.empty(0x58B \<mapsto> start (new_Transfer Pending (Some 0x2003) (Some 0) [] 30 0x60B)),
         device1\<lparr> sent := [(0x60B, ?f)] \<rparr>)"
    by (simp add: startDownload_def Let_def alloc_8 writeUInt8_def writeUInt16LE_def
          subIndexNum_def new_Transfer_def copy_def device_send_def device1_def)
  have c: "cobIdRx server0B = 0x58B" "cobIdTx server0B = 0x60B" "transfers client1 = Map.empty"
    by (simp_all add: server0B_def client1_def)
  have d: "download (\<lambda>(v::int) ty. None) client1 device1 0x0B (Inl []) (Some 0x2003) (Some 0)
             30 None
      = (client1\<lparr> servers := (servers client1)
                     (0x0B \<mapsto> server0B\<lparr> serverQueue := \<lparr> queue = [], pending = True \<rparr> \<rparr>),
                  transfers := Map.empty(0x58B \<mapsto>
                     start (new_Transfer Pending (Some 0x2003) (Some 0) [] 30 0x60B)) \<rparr>,
         device1\<lparr> sent := [(0x60B, ?f)] \<rparr>,
         None)"
    by (simp add: download_def f enqueue_def q c s Let_def)
  have r: "client_downloadInitiate
             (start (new_Transfer Pending (Some 0x2003) (Some 0) [] 30 0x60B)) dv
      = ((start (new_Transfer Pending (Some 0x2003) (Some 0) [] 30 0x60B))
           \<lparr> active := False, timer := False, future := Fulfilled None \<rparr>, dv)" for dv :: "int Device"
    by (simp add: client_downloadInitiate_def resolve_def start_def new_Transfer_def)
  have bf: "byteAt ?f 0 = 0x33" "readUInt16LE ?f (Suc 0) = 0x2003" "byteAt ?f 3 = 0"
    by (simp_all add: byteAt_def readUInt16LE_def)
  have n: "(0x33 :: nat) AND 0x02 = 0x02" "drop_bit 2 (0x33 :: nat) AND 3 = 0"
    "(0x33 :: nat) AND 1 = 1"
    by simp_all
  have x: "expeditedData ?f = [0, 0, 0, 0]"
    by (simp add: expeditedData_def bf n copy_def alloc_def)
  have fe: "findEntry eds1 (Some 0x2003) (Some 0) = Inr (top (plainEntry READ_WRITE 9 []))"
    by (simp add: findEntry_def getEntry_def eds1_def plainEntry_def)
  have oc: "downloadOutcome rtt1 eds1 (Some 0x2003) (Some 0) b = Commit" for b
    by (simp add: downloadOutcome_def fe plainEntry_def rtt1_def)
  have c1: "cobId context1 = 0x58B"
    by (simp add: context1_def new_Transfer_def)
  have sv: "server_downloadInitiate rtt1 context1 device1 ?f
       = (context1\<lparr> index := Some 0x2003, subIndex := Some 0 \<rparr>,
          device1\<lparr> eds := setRaw eds1 (Some 0x2003) (Some 0) [0, 0, 0, 0],
                   sent := [(0x58B, [0x60, 0x03, 0x20, 0x00, 0, 0, 0, 0])] \<rparr>)"
    by (simp add: server_downloadInitiate_cases bf n x oc Let_def
          downloadInitiateAck_def header_frame_Suc indexNum_def subIndexNum_def c1
          device_send_def device1_def)
  have e: "map_option (\<lambda>obj. raw (top obj))
         (setRaw eds1 (Some 0x2003) (Some 0) [0, 0, 0, 0] 0x2003)
       = Some [0, 0, 0, 0]"
    by (simp add: setRaw_def eds1_def plainEntry_def)
  from sv e show ?thesis
    unfolding d r bf by (simp add: n)
qed

section \<open>The client: a segment with the wrong toggle bit\<close>

text \<open>
  C7. A frame reaches an active transfer of the client, whose promise is pending as that
  of every active transfer is; the frame is a segment reply (command specifier 0, upload
  segment, or 1, download segment) and bit 4 of its command byte is not the toggle that
  the transfer expects. Then the client sends exactly one frame, to the identifier of
  the transfer: the abort frame with the index and the sub-index of the transfer and the
  bytes \<open>00 00 03 05\<close> of \<open>TOGGLE_BIT\<close>; and the promise of the transfer is rejected
  with code \<open>0x05030000\<close>, the transfer being no longer active.
\<close>

theorem client_toggle_mismatch:
  assumes "trs (fst m) = Some t"
    and "active t" and "future t = Pending" and "toggle t \<le> 1"
    and "drop_bit 5 (byteAt (snd m) 0) = 0 \<or> drop_bit 5 (byteAt (snd m) 0) = 1"
    and "bit (byteAt (snd m) 0) 4 \<noteq> (toggle t = 1)"
  shows "sent (snd (client_onMessage trs dev m))
           = sent dev @ [(cobId t, [0x80, of_nat (indexNum t), of_nat (indexNum t div 256),
                                    of_nat (subIndexNum t), 0x00, 0x00, 0x03, 0x05])]
         \<and> fst (client_onMessage trs dev m) (fst m)
             = Some (t\<lparr> active := False, timer := False, future := Rejected 0x05030000 \<rparr>)
         \<and> TOGGLE_BIT = 0x05030000"
proof -
  have g: "byteAt (snd m) 0 AND 0x10 \<noteq> push_bit 4 (toggle t)"
    using toggle_guard [OF assms(4), of "byteAt (snd m) 0"] assms(6) by blast
  have r: "client_onMessage trs dev m
             = (trs(fst m \<mapsto> reject TOGGLE_BIT t),
                dev\<lparr> sent := sent dev @ [(cobId t, abortFrame t TOGGLE_BIT)] \<rparr>)"
    using assms(1,2,5) g
    by (auto simp add: client_onMessage_def client_uploadSegment_def
          client_downloadSegment_def abort_result Let_def)
  have f: "abortFrame t TOGGLE_BIT
             = [0x80, of_nat (indexNum t), of_nat (indexNum t div 256),
                of_nat (subIndexNum t), 0x00, 0x00, 0x03, 0x05]"
    by (simp add: abortFrame_bytes TOGGLE_BIT_def)
  have c: "reject TOGGLE_BIT t
             = t\<lparr> active := False, timer := False, future := Rejected 0x05030000 \<rparr>"
    using assms(3) by (simp add: reject_def TOGGLE_BIT_def)
  have k: "TOGGLE_BIT = 0x05030000"
    by (simp add: TOGGLE_BIT_def)
  show ?thesis
    unfolding r f c using k by simp
qed

text \<open>
  The fourth scenario of the specification: the download of "HelloWorld" to 0x2002 has
  sent its first segment, and the server answers with header 0x30 instead of 0x20.
\<close>

theorem client_toggle_mismatch_witness:
  "sent (snd (client_onMessage (Map.empty(0x58B \<mapsto> downloading)) device1
                (0x58B, [0x30, 0, 0, 0, 0, 0, 0, 0])))
     = [(0x60B, [0x80, 0x02, 0x20, 0x00, 0x00, 0x00, 0x03, 0x05])]
   \<and> fst (client_onMessage (Map.empty(0x58B \<mapsto> downloading)) device1
              (0x58B, [0x30, 0, 0, 0, 0, 0, 0, 0])) 0x58B
       = Some (downloading\<lparr> active := False, timer := False, future := Rejected 0x05030000 \<rparr>)"
proof -
  have b: "byteAt [0x30, 0, 0, 0, 0, 0, 0, 0] 0 = 0x30"
    by (simp add: byteAt_def)
  have h: "bit (0x30 :: nat) 4" "drop_bit 5 (0x30 :: nat) = 1"
    by simp_all
  have d: "active downloading" "future downloading = Pending" "toggle downloading = 0"
    "cobId downloading = 0x60B" "indexNum downloading = 0x2002" "subIndexNum downloading = 0"
    by (simp_all add: downloading_def start_def new_Transfer_def indexNum_def subIndexNum_def)
  show ?thesis
    using client_toggle_mismatch
      [of "Map.empty(0x58B \<mapsto> downloading)" "(0x58B, [0x30, 0, 0, 0, 0, 0, 0, 0])"
          downloading device1]
    by (simp add: b h d device1_def)
qed

section \<open>The server: downloads write the entry at the commit point only\<close>

text \<open>
  C8. For frames of 8 bytes. A download initiate leaves the dictionary as it was unless
  it is expedited, the entry exists and may be written, and \<open>rawToType\<close> yields a
  value within the limits of the entry: then the bytes of the frame become the
  \<open>raw\<close> of that entry and of no other. A download segment
  leaves the dictionary as it was unless its toggle bit is right, it is the last segment
  and the same checks pass on the bytes received: then those bytes become the \<open>raw\<close> of
  the entry. Whenever a handler answers with an abort frame (the only answers to a
  missing object or sub-index, a constant or read-only entry, a value above or below the
  limits, a wrong toggle bit), the dictionary is as it was.
\<close>

theorem server_download_commit_point:
  assumes "length d = 8"
  shows
  "(eds (snd (server_downloadInitiate rtt client dev d)) \<noteq> eds dev \<longrightarrow>
      byteAt d 0 AND 0x02 \<noteq> 0
      \<and> downloadAllowed rtt (eds dev) (Some (of_nat (readUInt16LE d 1)))
            (Some (of_nat (byteAt d 3))) (expeditedData d)
      \<and> eds (snd (server_downloadInitiate rtt client dev d))
          = setRaw (eds dev) (Some (of_nat (readUInt16LE d 1))) (Some (of_nat (byteAt d 3)))
              (expeditedData d))
   \<and> ((\<exists>t code. sent (snd (server_downloadInitiate rtt client dev d))
                   = sent dev @ [(cobId client, abortFrame t code)]) \<longrightarrow>
        eds (snd (server_downloadInitiate rtt client dev d)) = eds dev)
   \<and> (eds (snd (server_downloadSegment rtt client dev d)) \<noteq> eds dev \<longrightarrow>
        byteAt d 0 AND 0x10 = push_bit 4 (toggle client)
        \<and> byteAt d 0 AND 1 \<noteq> 0
        \<and> downloadAllowed rtt (eds dev) (index client) (subIndex client) (received client d)
        \<and> eds (snd (server_downloadSegment rtt client dev d))
            = setRaw (eds dev) (index client) (subIndex client) (received client d))
   \<and> ((\<exists>t code. sent (snd (server_downloadSegment rtt client dev d))
                   = sent dev @ [(cobId client, abortFrame t code)]) \<longrightarrow>
        eds (snd (server_downloadSegment rtt client dev d)) = eds dev)"
proof (intro conjI impI)
  assume "eds (snd (server_downloadInitiate rtt client dev d)) \<noteq> eds dev"
  then have c: "byteAt d 0 AND 0x02 \<noteq> 0
      \<and> downloadAllowed rtt (eds dev) (Some (of_nat (readUInt16LE d 1)))
            (Some (of_nat (byteAt d 3))) (expeditedData d)"
    unfolding server_downloadInitiate_eds by (simp split: if_splits)
  from c show "byteAt d 0 AND 0x02 \<noteq> 0" by simp
  from c show "downloadAllowed rtt (eds dev) (Some (of_nat (readUInt16LE d 1)))
            (Some (of_nat (byteAt d 3))) (expeditedData d)" by simp
  from c show "eds (snd (server_downloadInitiate rtt client dev d))
          = setRaw (eds dev) (Some (of_nat (readUInt16LE d 1))) (Some (of_nat (byteAt d 3)))
              (expeditedData d)"
    unfolding server_downloadInitiate_eds by simp
next
  assume "\<exists>t code. sent (snd (server_downloadInitiate rtt client dev d))
                   = sent dev @ [(cobId client, abortFrame t code)]"
  then obtain t code where a: "sent (snd (server_downloadInitiate rtt client dev d))
                   = sent dev @ [(cobId client, abortFrame t code)]"
    by blast
  from server_downloadInitiate_sent [where rtt = rtt and client = client and dev = dev and d = d] a
  have "\<not> (byteAt d 0 AND 0x02 \<noteq> 0
      \<and> downloadAllowed rtt (eds dev) (Some (of_nat (readUInt16LE d 1)))
            (Some (of_nat (byteAt d 3))) (expeditedData d))"
    by (auto simp add: abortFrame_head split: if_splits)
  then show "eds (snd (server_downloadInitiate rtt client dev d)) = eds dev"
    unfolding server_downloadInitiate_eds by auto
next
  assume "eds (snd (server_downloadSegment rtt client dev d)) \<noteq> eds dev"
  then have c: "byteAt d 0 AND 0x10 = push_bit 4 (toggle client) \<and> byteAt d 0 AND 1 \<noteq> 0
      \<and> downloadAllowed rtt (eds dev) (index client) (subIndex client) (received client d)"
    unfolding server_downloadSegment_eds by (simp split: if_splits)
  from c show "byteAt d 0 AND 0x10 = push_bit 4 (toggle client)" by simp
  from c show "byteAt d 0 AND 1 \<noteq> 0" by simp
  from c show "downloadAllowed rtt (eds dev) (index client) (subIndex client)
                 (received client d)" by simp
  from c show "eds (snd (server_downloadSegment rtt client dev d))
            = setRaw (eds dev) (index client) (subIndex client) (received client d)"
    unfolding server_downloadSegment_eds by simp
next
  assume "\<exists>t code. sent (snd (server_downloadSegment rtt client dev d))
                   = sent dev @ [(cobId client, abortFrame t code)]"
  then obtain t code where a: "sent (snd (server_downloadSegment rtt client dev d))
                   = sent dev @ [(cobId client, abortFrame t code)]"
    by blast
  from server_downloadSegment_sent [where rtt = rtt and client = client and dev = dev and d = d] a
  have "byteAt d 0 AND 0x10 \<noteq> push_bit 4 (toggle client)
        \<or> byteAt d 0 AND 1 \<noteq> 0
           \<and> \<not> downloadAllowed rtt (eds dev) (index client) (subIndex client)
                  (received client d)"
    by (auto simp add: abortFrame_head split: if_splits)
  then show "eds (snd (server_downloadSegment rtt client dev d)) = eds dev"
    unfolding server_downloadSegment_eds by auto
qed

text \<open>
  Two downloads on the concrete device. The fifth scenario of the specification: one
  byte to the read-only 0x2002 is answered by \<open>80 02 20 00 02 00 01 06\<close>, and the
  dictionary is as before. Four bytes \<open>01 02 03 04\<close> to 0x2001 change the dictionary,
  so the frame was expedited and passed the checks.
\<close>

theorem server_download_commit_point_witness:
  "sent (snd (server_downloadInitiate rtt1 context1 device1
                [0x2F, 0x02, 0x20, 0x00, 0x09, 0, 0, 0]))
     = [(0x58B, [0x80, 0x02, 0x20, 0x00, 0x02, 0x00, 0x01, 0x06])]
   \<and> eds (snd (server_downloadInitiate rtt1 context1 device1
                  [0x2F, 0x02, 0x20, 0x00, 0x09, 0, 0, 0])) = eds1
   \<and> eds (snd (server_downloadInitiate rtt1 context1 device1
                  [0x23, 0x01, 0x20, 0x00, 0x01, 0x02, 0x03, 0x04])) \<noteq> eds1
   \<and> downloadAllowed rtt1 eds1 (Some 0x2001) (Some 0) [0x01, 0x02, 0x03, 0x04]
   \<and> eds (snd (server_downloadInitiate rtt1 context1 device1
                  [0x23, 0x01, 0x20, 0x00, 0x01, 0x02, 0x03, 0x04]))
       = setRaw eds1 (Some 0x2001) (Some 0) [0x01, 0x02, 0x03, 0x04]"
proof -
  let ?d5 = "[0x2F, 0x02, 0x20, 0x00, 0x09, 0, 0, 0] :: byte list"
  let ?d2 = "[0x23, 0x01, 0x20, 0x00, 0x01, 0x02, 0x03, 0x04] :: byte list"
  let ?c5 = "context1\<lparr> index := Some 0x2002, subIndex := Some 0 \<rparr>"
  have i5: "(of_nat (readUInt16LE ?d5 1) :: 16 word) = 0x2002" "(of_nat (byteAt ?d5 3) :: byte) = 0"
    "byteAt ?d5 0 AND 0x02 \<noteq> 0"
    by (simp_all add: readUInt16LE_def byteAt_def)
  have i2: "(of_nat (readUInt16LE ?d2 1) :: 16 word) = 0x2001" "(of_nat (byteAt ?d2 3) :: byte) = 0"
    "byteAt ?d2 0 AND 0x02 \<noteq> 0"
    by (simp_all add: readUInt16LE_def byteAt_def)
  have e2: "expeditedData ?d2 = [0x01, 0x02, 0x03, 0x04]"
    by (simp add: expeditedData_def byteAt_def copy_def alloc_def)
  have f5: "findEntry eds1 (Some 0x2002) (Some 0) = Inr (top (plainEntry READ_ONLY 5 [0x07]))"
    by (simp add: findEntry_def getEntry_def eds1_def plainEntry_def)
  have f2: "findEntry eds1 (Some 0x2001) (Some 0)
              = Inr (top (plainEntry READ_WRITE 7 [0xDE, 0xAD, 0xBE, 0xEF]))"
    by (simp add: findEntry_def getEntry_def eds1_def plainEntry_def)
  have a5: "downloadOutcome rtt1 eds1 (Some 0x2002) (Some 0) r = Refuse READ_ONLY_CODE" for r
    by (simp add: downloadOutcome_def f5 plainEntry_def)
  have r5: "server_downloadInitiate rtt1 context1 device1 ?d5 = abort READ_ONLY_CODE ?c5 device1"
    unfolding server_downloadInitiate_cases Let_def i5
    by (simp add: a5 device1_def i5(3))
  have s5: "sent (snd (server_downloadInitiate rtt1 context1 device1 ?d5))
              = sent device1 @ [(cobId context1, abortFrame ?c5 READ_ONLY_CODE)]"
    unfolding r5 by (simp add: abort_result)
  have b5: "abortFrame ?c5 READ_ONLY_CODE = [0x80, 0x02, 0x20, 0x00, 0x02, 0x00, 0x01, 0x06]"
    by (simp add: abortFrame_bytes indexNum_def subIndexNum_def READ_ONLY_CODE_def)
  have c1: "cobId context1 = 0x58B" "sent device1 = []" "eds device1 = eds1"
    by (simp_all add: context1_def new_Transfer_def device1_def)
  have l: "length ?d5 = 8" "length ?d2 = 8"
    by simp_all
  note thm5 = server_download_commit_point
    [OF l(1), where rtt = rtt1 and client = context1 and dev = device1]
  from thm5 s5 have u5: "eds (snd (server_downloadInitiate rtt1 context1 device1 ?d5)) = eds1"
    unfolding c1 by blast
  have al2: "downloadAllowed rtt1 eds1 (Some 0x2001) (Some 0) [0x01, 0x02, 0x03, 0x04]"
    by (simp add: downloadAllowed_def f2 plainEntry_def rtt1_def)
  have w2: "setRaw eds1 (Some 0x2001) (Some 0) [0x01, 0x02, 0x03, 0x04] 0x2001 \<noteq> eds1 0x2001"
    by (simp add: setRaw_def eds1_def plainEntry_def)
  have n2: "eds (snd (server_downloadInitiate rtt1 context1 device1 ?d2)) 0x2001
              \<noteq> eds1 0x2001"
    unfolding server_downloadInitiate_eds i2 e2 c1
    using w2 by (simp add: i2(3) al2)
  then have n2': "eds (snd (server_downloadInitiate rtt1 context1 device1 ?d2)) \<noteq> eds1"
    by auto
  note thm2 = server_download_commit_point
    [OF l(2), where rtt = rtt1 and client = context1 and dev = device1]
  from thm2 n2' have u2: "downloadAllowed rtt1 eds1 (Some 0x2001) (Some 0) [0x01, 0x02, 0x03, 0x04]
      \<and> eds (snd (server_downloadInitiate rtt1 context1 device1 ?d2))
          = setRaw eds1 (Some 0x2001) (Some 0) [0x01, 0x02, 0x03, 0x04]"
    unfolding c1 i2 e2 by blast
  from s5 b5 c1 u5 n2' u2 show ?thesis
    by simp
qed

section \<open>The queue: first in, first out, one at a time\<close>

text \<open>
  C9. Whatever the events on the queue of a server, the log is a beginning of the
  sequence "started, settled, reported" of the first submitted function, then of the
  second, and so on in the order of submission: a transfer is settled and its result
  reported before any function submitted after it is started. And the log never holds
  more than one start beyond the transfers it shows settled: at most one transfer of the
  server is active. The statement holds at every moment, each moment being the run of a
  beginning of the events.
\<close>

theorem queue_fifo_one_active:
  "prefix (qlog (qrun es)) (concat (map lifecycle (pushed es)))
   \<and> length (filter is_Started (qlog (qrun es)))
       \<le> Suc (length (filter is_Settled (qlog (qrun es))))"
proof -
  have inv: "qinv (pushed es) (qrun es)" by (rule qinv_qrun)
  let ?s = "qrun es"
  have eq: "concat (map lifecycle (pushed es))
      = qlog ?s @ remaining (running ?s) @ concat (map lifecycle (queue (qstate ?s)))"
    using inv by (simp add: qinv_def)
  have p: "prefix (qlog ?s) (concat (map lifecycle (pushed es)))"
    unfolding eq by simp
  have "length (filter is_Started (concat (map lifecycle (pushed es))))
      = length (filter is_Settled (concat (map lifecycle (pushed es))))"
    by (simp add: count_Started_lifecycles count_Settled_lifecycles)
  then have "length (filter is_Started (qlog ?s))
      = length (filter is_Settled (qlog ?s))
        + length (filter is_Settled (remaining (running ?s)))"
    unfolding eq
    by (simp add: count_Started_lifecycles count_Settled_lifecycles remaining_counts)
  moreover have "length (filter is_Settled (remaining (running ?s))) \<le> 1"
    using remaining_counts [of "running ?s"] by simp
  ultimately have "length (filter is_Started (qlog ?s))
      \<le> Suc (length (filter is_Settled (qlog ?s)))"
    by simp
  with p show ?thesis by simp
qed

section \<open>The client: a server that is not in the table\<close>

text \<open>
  C10. When the table of the client has no entry for \<open>serverId\<close> but has one for
  server 0, \<open>upload\<close> and \<open>download\<close> throw no "not mapped" error: the only
  exceptions left are those of the other arguments (no index; for a download, data that
  is not a buffer with no data type, or that cannot be converted). The table then holds
  an entry for \<open>serverId\<close> whose two identifiers are those of server 0, with \<open>serverId\<close>
  ORed in where the low nibble is zero; an upload with an index runs at once on that
  entry, its initiate frame going to the derived identifier. The "not mapped" error is
  thrown exactly when neither \<open>serverId\<close> nor server 0 has an entry.
\<close>

theorem unmapped_server_uses_default:
  "(servers cl serverId = None \<and> servers cl 0 = Some server0 \<longrightarrow>
      snd (snd (upload cl dev serverId idx sub tmo))
        = (case idx of None \<Rightarrow> Some MustProvideIndex | Some i \<Rightarrow> None)
      \<and> (\<exists>q. servers (fst (upload cl dev serverId idx sub tmo)) serverId
             = Some \<lparr> cobIdTx = (if js_and (cobIdTx server0) 0xF = 0
                                  then js_or (cobIdTx server0) serverId else cobIdTx server0),
                      cobIdRx = (if js_and (cobIdRx server0) 0xF = 0
                                  then js_or (cobIdRx server0) serverId else cobIdRx server0),
                      serverQueue = q \<rparr>)
      \<and> (idx \<noteq> None \<longrightarrow>
            (\<exists>fr. sent (fst (snd (upload cl dev serverId idx sub tmo)))
                    = sent dev @ [(deriveCobId (cobIdTx server0) serverId, fr)]))
      \<and> (\<forall>k. snd (snd (download ttr cl dev serverId dat idx sub tmo dtype))
                 \<noteq> Some (ServerNotMapped k))
      \<and> (idx \<noteq> None \<and> (\<exists>buf. dat = Inl buf) \<longrightarrow>
            snd (snd (download ttr cl dev serverId dat idx sub tmo dtype)) = None)
      \<and> (\<exists>q. servers (fst (download ttr cl dev serverId dat idx sub tmo dtype)) serverId
             = Some \<lparr> cobIdTx = (if js_and (cobIdTx server0) 0xF = 0
                                  then js_or (cobIdTx server0) serverId else cobIdTx server0),
                      cobIdRx = (if js_and (cobIdRx server0) 0xF = 0
                                  then js_or (cobIdRx server0) serverId else cobIdRx server0),
                      serverQueue = q \<rparr>))
   \<and> ((\<exists>k. snd (snd (upload cl dev serverId idx sub tmo)) = Some (ServerNotMapped k))
        = (servers cl serverId = None \<and> servers cl 0 = None))
   \<and> ((\<exists>k. snd (snd (download ttr cl dev serverId dat idx sub tmo dtype))
               = Some (ServerNotMapped k))
        = (servers cl serverId = None \<and> servers cl 0 = None))"
proof -
  have err_up: "(\<exists>k. snd (snd (upload cl dev serverId idx sub tmo)) = Some (ServerNotMapped k))
        = (servers cl serverId = None \<and> servers cl 0 = None)"
    unfolding upload_exn findServer_error [symmetric]
    by (auto split: sum.splits option.splits)
  have err_down: "(\<exists>k. snd (snd (download ttr cl dev serverId dat idx sub tmo dtype))
               = Some (ServerNotMapped k))
        = (servers cl serverId = None \<and> servers cl 0 = None)"
    unfolding download_exn findServer_error [symmetric]
    by (auto split: sum.splits option.splits)
  have main: "servers cl serverId = None \<and> servers cl 0 = Some server0 \<longrightarrow>
      snd (snd (upload cl dev serverId idx sub tmo))
        = (case idx of None \<Rightarrow> Some MustProvideIndex | Some i \<Rightarrow> None)
      \<and> (\<exists>q. servers (fst (upload cl dev serverId idx sub tmo)) serverId
             = Some \<lparr> cobIdTx = (if js_and (cobIdTx server0) 0xF = 0
                                  then js_or (cobIdTx server0) serverId else cobIdTx server0),
                      cobIdRx = (if js_and (cobIdRx server0) 0xF = 0
                                  then js_or (cobIdRx server0) serverId else cobIdRx server0),
                      serverQueue = q \<rparr>)
      \<and> (idx \<noteq> None \<longrightarrow>
            (\<exists>fr. sent (fst (snd (upload cl dev serverId idx sub tmo)))
                    = sent dev @ [(deriveCobId (cobIdTx server0) serverId, fr)]))
      \<and> (\<forall>k. snd (snd (download ttr cl dev serverId dat idx sub tmo dtype))
                 \<noteq> Some (ServerNotMapped k))
      \<and> (idx \<noteq> None \<and> (\<exists>buf. dat = Inl buf) \<longrightarrow>
            snd (snd (download ttr cl dev serverId dat idx sub tmo dtype)) = None)
      \<and> (\<exists>q. servers (fst (download ttr cl dev serverId dat idx sub tmo dtype)) serverId
             = Some \<lparr> cobIdTx = (if js_and (cobIdTx server0) 0xF = 0
                                  then js_or (cobIdTx server0) serverId else cobIdTx server0),
                      cobIdRx = (if js_and (cobIdRx server0) 0xF = 0
                                  then js_or (cobIdRx server0) serverId else cobIdRx server0),
                      serverQueue = q \<rparr>)"
  proof (rule impI, elim conjE)
    assume a: "servers cl serverId = None" and b: "servers cl 0 = Some server0"
    let ?server = "\<lparr> cobIdTx = deriveCobId (cobIdTx server0) serverId,
                      cobIdRx = deriveCobId (cobIdRx server0) serverId,
                      serverQueue = new_Queue \<rparr>"
    let ?srv = "(servers cl)(serverId \<mapsto> ?server)"
    have f: "findServer (servers cl) serverId = Inr (?srv, ?server)"
      using a b by (rule findServer_derived)
    have u1: "snd (snd (upload cl dev serverId idx sub tmo))
        = (case idx of None \<Rightarrow> Some MustProvideIndex | Some i \<Rightarrow> None)"
      by (simp add: upload_exn f)
    have u2: "\<exists>q. servers (fst (upload cl dev serverId idx sub tmo)) serverId
             = Some \<lparr> cobIdTx = (if js_and (cobIdTx server0) 0xF = 0
                                  then js_or (cobIdTx server0) serverId else cobIdTx server0),
                      cobIdRx = (if js_and (cobIdRx server0) 0xF = 0
                                  then js_or (cobIdRx server0) serverId else cobIdRx server0),
                      serverQueue = q \<rparr>"
      unfolding upload_servers [OF f]
      by (cases idx) (simp_all add: deriveCobId_def)
    have u3: "\<exists>fr. sent (fst (snd (upload cl dev serverId idx sub tmo)))
                    = sent dev @ [(deriveCobId (cobIdTx server0) serverId, fr)]"
      if "idx \<noteq> None"
      using that
      by (auto simp add: upload_def f Let_def enqueue_def push_new_Queue startUpload_def
            device_send_def)
    have d1: "snd (snd (download ttr cl dev serverId dat idx sub tmo dtype))
                 \<noteq> Some (ServerNotMapped k)" for k
      using err_down a b by auto
    have d2: "snd (snd (download ttr cl dev serverId dat idx sub tmo dtype)) = None"
      if "idx \<noteq> None \<and> (\<exists>buf. dat = Inl buf)"
      using that by (auto simp add: download_exn f)
    have d3: "\<exists>q. servers (fst (download ttr cl dev serverId dat idx sub tmo dtype)) serverId
             = Some \<lparr> cobIdTx = (if js_and (cobIdTx server0) 0xF = 0
                                  then js_or (cobIdTx server0) serverId else cobIdTx server0),
                      cobIdRx = (if js_and (cobIdRx server0) 0xF = 0
                                  then js_or (cobIdRx server0) serverId else cobIdRx server0),
                      serverQueue = q \<rparr>"
      using download_servers [OF f, of ttr dev dat idx sub tmo dtype]
      by (auto simp add: deriveCobId_def split: if_splits)
    from u3 have u3': "idx \<noteq> None \<longrightarrow>
            (\<exists>fr. sent (fst (snd (upload cl dev serverId idx sub tmo)))
                    = sent dev @ [(deriveCobId (cobIdTx server0) serverId, fr)])"
      by (rule impI)
    from d1 have d1': "\<forall>k. snd (snd (download ttr cl dev serverId dat idx sub tmo dtype))
                 \<noteq> Some (ServerNotMapped k)"
      by (rule allI)
    from d2 have d2': "idx \<noteq> None \<and> (\<exists>buf. dat = Inl buf) \<longrightarrow>
            snd (snd (download ttr cl dev serverId dat idx sub tmo dtype)) = None"
      by (rule impI)
    show "snd (snd (upload cl dev serverId idx sub tmo))
        = (case idx of None \<Rightarrow> Some MustProvideIndex | Some i \<Rightarrow> None)
      \<and> (\<exists>q. servers (fst (upload cl dev serverId idx sub tmo)) serverId
             = Some \<lparr> cobIdTx = (if js_and (cobIdTx server0) 0xF = 0
                                  then js_or (cobIdTx server0) serverId else cobIdTx server0),
                      cobIdRx = (if js_and (cobIdRx server0) 0xF = 0
                                  then js_or (cobIdRx server0) serverId else cobIdRx server0),
                      serverQueue = q \<rparr>)
      \<and> (idx \<noteq> None \<longrightarrow>
            (\<exists>fr. sent (fst (snd (upload cl dev serverId idx sub tmo)))
                    = sent dev @ [(deriveCobId (cobIdTx server0) serverId, fr)]))
      \<and> (\<forall>k. snd (snd (download ttr cl dev serverId dat idx sub tmo dtype))
                 \<noteq> Some (ServerNotMapped k))
      \<and> (idx \<noteq> None \<and> (\<exists>buf. dat = Inl buf) \<longrightarrow>
            snd (snd (download ttr cl dev serverId dat idx sub tmo dtype)) = None)
      \<and> (\<exists>q. servers (fst (download ttr cl dev serverId dat idx sub tmo dtype)) serverId
             = Some \<lparr> cobIdTx = (if js_and (cobIdTx server0) 0xF = 0
                                  then js_or (cobIdTx server0) serverId else cobIdTx server0),
                      cobIdRx = (if js_and (cobIdRx server0) 0xF = 0
                                  then js_or (cobIdRx server0) serverId else cobIdRx server0),
                      serverQueue = q \<rparr>)"
      by (intro conjI) (rule u1 u2 u3' d1' d2' d3)+
  qed
  show ?thesis
    by (rule conjI [OF main conjI [OF err_up err_down]])
qed

text \<open>
  The client that knows server 0 only, on 0x600 and 0x580, uploads 0x2000 from server
  0x0B: no exception, a new entry on 0x60B and 0x58B, the initiate frame sent to 0x60B.
\<close>

theorem unmapped_server_uses_default_witness:
  "snd (snd (upload client0 device1 0x0B (Some 0x2000) None 30)) = None
   \<and> (\<exists>q. servers (fst (upload client0 device1 0x0B (Some 0x2000) None 30)) 0x0B
          = Some \<lparr> cobIdTx = 0x60B, cobIdRx = 0x58B, serverQueue = q \<rparr>)
   \<and> (\<exists>fr. sent (fst (snd (upload client0 device1 0x0B (Some 0x2000) None 30)))
          = [(0x60B, fr)])
   \<and> snd (snd (upload client0 device1 0x0B (Some 0x2000) None 30))
       \<noteq> Some (ServerNotMapped 0x0B)"
proof -
  have h: "servers client0 0x0B = None \<and> servers client0 0 = Some server00"
    by (simp add: client0_def)
  have j: "js_and (cobIdTx server00) 0xF = 0" "js_or (cobIdTx server00) 0x0B = 0x60B"
    "js_and (cobIdRx server00) 0xF = 0" "js_or (cobIdRx server00) 0x0B = 0x58B"
    by (simp_all add: server00_def js_and_def js_or_def)
  have s: "sent device1 = []"
    by (simp add: device1_def)
  from unmapped_server_uses_default
    [of client0 "0x0B" server00 device1 "Some 0x2000" None 30 "\<lambda>(v::int) ty. None" "Inl []" None]
    h
  show ?thesis
    by (simp add: j s deriveCobId_def)
qed

end
